theory Spec2Isabelle
  imports Complex_Main
begin

section \<open>The crosshair displayable manager of a slice view\<close>

text \<open>
  A shallow embedding of \<^verbatim>\<open>vtkMRMLCrosshairDisplayableManager.cxx\<close>.  The manager and
  the objects it reaches (scene, nodes, renderers) are one record that every operation
  takes and returns.  A C++ \<^verbatim>\<open>double\<close> is modelled as the real number it denotes, C++
  \<^verbatim>\<open>int\<close> screen coordinates as integers, pointers as optional addresses (\<open>None\<close> is the
  null pointer), and an abort of the program as a value of type \<open>fault\<close>.
\<close>

subsection \<open>Double arithmetic\<close>

text \<open>
  The change classifier compares differences of doubles with the literal \<^verbatim>\<open>1.0e-12\<close>,
  where one unit in the last place decides.  \<open>RoundToDouble\<close> gives the IEEE binary64
  value nearest to a real, ties to the even significand: the value of a decimal literal
  and the result of a subtraction whose exact result is that real.  \<open>binade x\<close> is the
  exponent \<open>e\<close> with \<open>2 powi e \<le> \<bar>x\<bar> < 2 powi (e + 1)\<close>, kept within the exponents of
  normal doubles, so that the spacing \<open>2 powi (e - 52)\<close> is that of the subnormal doubles
  below \<open>2 powi (- 1022)\<close>.  A magnitude beyond the largest double, infinite in C++,
  stays a finite value of at least \<open>2 powi 1023\<close> here; both compare with the tolerance
  in the same way.  The coordinate mapping of the position update is kept in exact
  arithmetic.
\<close>

definition roundTiesToEven :: "real \<Rightarrow> int" where
  "roundTiesToEven y =
     (let f = \<lfloor>y\<rfloor>; r = y - of_int f
      in if r < 1 / 2 then f else if 1 / 2 < r then f + 1 else if even f then f else f + 1)"

definition minExponent :: int where
  "minExponent = - 1022"

definition maxExponent :: int where
  "maxExponent = 1023"

definition binade :: "real \<Rightarrow> int" where
  "binade x =
     (case find (\<lambda>e. 2 powi e \<le> \<bar>x\<bar>) (rev [minExponent .. maxExponent]) of
        None \<Rightarrow> minExponent
      | Some e \<Rightarrow> e)"

definition RoundToDouble :: "real \<Rightarrow> real" where
  "RoundToDouble x =
     (if x = 0 then 0
      else (let q = 2 powi (binade x - 52) in of_int (roundTiesToEven (x / q)) * q))"

subsection \<open>Nodes\<close>

type_synonym addr = nat

text \<open>
  Modelled from the spec: the crosshair node class \<^verbatim>\<open>vtkMRMLCrosshairNode\<close>, which is
  declared outside this file.  A crosshair state has a position of three floating-point
  coordinates, a display mode (none, basic, intersection, small-basic,
  small-intersection), a thickness (fine, medium, thick) and a name.  The constructors
  carry the enumerator names the manager uses.  The manager compares the getters'
  results with these enumerators and has a \<^verbatim>\<open>default:\<close> branch in its \<^verbatim>\<open>switch\<close> on
  the mode and no final \<^verbatim>\<open>else\<close> in its chain on the thickness, so a value that is none
  of them is provided for: \<open>OtherMode\<close> and \<open>OtherThickness\<close>.
\<close>

datatype crosshair_mode =
    NoCrosshair | ShowBasic | ShowIntersection | ShowSmallBasic | ShowSmallIntersection
  | OtherMode nat

datatype crosshair_thickness = Fine | Medium | Thick | OtherThickness nat

record crosshair_node =
  CrosshairName :: string
  CrosshairRAS :: "real \<times> real \<times> real"
  CrosshairMode :: crosshair_mode
  CrosshairThickness :: crosshair_thickness

text \<open>
  Modelled from the spec: \<^verbatim>\<open>vtkMRMLCrosshairNode::Copy\<close>, which is defined outside this
  file.  The cached snapshot is a copy of the position, the mode and the thickness of
  the crosshair state, and refreshing it makes it mirror the current state: the copy
  gives the cache these three attributes of the node.  The name of the cache, which
  the manager never reads, is left as it is.
\<close>

definition Copy :: "crosshair_node \<Rightarrow> crosshair_node \<Rightarrow> crosshair_node" where
  "Copy cache node =
     cache\<lparr>CrosshairRAS := CrosshairRAS node, CrosshairMode := CrosshairMode node,
           CrosshairThickness := CrosshairThickness node\<rparr>"

type_synonym vec4 = "real \<times> real \<times> real \<times> real"
type_synonym mat4 = "vec4 \<times> vec4 \<times> vec4 \<times> vec4"

text \<open>
  Modelled from the spec: the slice node and the scene, both declared outside this
  file.  The slice node gives the layout name of its view (a C string, possibly null)
  and the matrix from display to anatomical coordinates; the scene has a flag that
  tells whether it is in a bulk update, and a collection of nodes that is traversed in
  order.  A \<open>node_ref\<close> is one entry of that collection, tagged with the dynamic class
  that \<^verbatim>\<open>SafeDownCast\<close> tests.
\<close>

record slice_node =
  LayoutName :: "string option"
  XYToRAS :: mat4

datatype node_ref = SliceCompositeRef addr | CrosshairRef addr | OtherRef addr

record scene =
  IsUpdating :: bool
  CurrentScene :: "node_ref list"

subsection \<open>The glyph and the calls to collaborators\<close>

type_synonym actor_id = nat
type_synonym renderer_id = nat

text \<open>
  The \<^verbatim>\<open>vtkActor2D\<close> built by \<^verbatim>\<open>BuildCrosshair\<close>, with its mapper's poly data (points
  and two-point line cells) and its 2D property.  \<open>LineWidth\<close> and \<open>Position\<close> are
  \<open>None\<close> while the manager has not set them (the library's default for a new actor is
  then in force).
\<close>

record actor2D =
  ActorId :: actor_id
  Points :: "(int \<times> int \<times> int) list"
  Lines :: "(nat \<times> nat) list"
  LineWidth :: "real option"
  Color :: "real \<times> real \<times> real"
  Opacity :: real
  Visibility :: bool
  Position :: "(real \<times> real) option"

datatype call =
    RemoveActorCall renderer_id actor_id
  | AddActorCall renderer_id actor_id
  | SetPositionCall real real
  | GetRendererCall real
  | CacheCopyCall
  | RequestRenderCall

datatype style_event = MouseMoveEvent

datatype fault = AssertionFailed | NullPointer | NotFinite

subsection \<open>The manager\<close>

text \<open>
  The first six fields are the members of \<^verbatim>\<open>vtkInternal\<close>.  The others are what the
  manager reaches through \<^verbatim>\<open>External\<close> and through its pointers:
  \<^item> \<open>MRMLScene\<close>, \<open>MRMLSliceNode\<close>: the results of \<^verbatim>\<open>GetMRMLScene()\<close> and
    \<^verbatim>\<open>GetMRMLSliceNode()\<close>;
  \<^item> \<open>InteractorScreenSize\<close>: the screen size of the interactor's render window, \<open>None\<close>
    when \<^verbatim>\<open>GetInteractor()\<close> or its render window is null;
  \<^item> \<open>CompositeLayoutName\<close>, \<open>CrosshairNodes\<close>: the live composite and crosshair node
    objects by address;
  \<^item> \<open>RendererProps\<close>: which actor is in which renderer;
  \<^item> \<open>NextActor\<close>: the identity the next allocated actor gets;
  \<^item> \<open>CompositeObservers\<close>, \<open>CrosshairObservers\<close>: the nodes on which the manager's
    callback command is registered for \<^verbatim>\<open>ModifiedEvent\<close>, one entry per registration;
  \<^item> \<open>StyleObservableEvents\<close>: the interactor style events asked for;
  \<^item> \<open>Calls\<close>: the calls made to collaborators, oldest first.
\<close>

record manager =
  SliceCompositeNode :: "addr option"
  CrosshairNode :: "addr option"
  Actor :: "actor2D option"
  CrosshairNodeCache :: crosshair_node
  LightBoxRenderer :: "renderer_id option"
  LightBoxRendererManagerProxy :: "(real \<Rightarrow> renderer_id option) option"
  MRMLScene :: "scene option"
  MRMLSliceNode :: "slice_node option"
  InteractorScreenSize :: "(int \<times> int) option"
  CompositeLayoutName :: "addr \<Rightarrow> string option"
  CrosshairNodes :: "addr \<Rightarrow> crosshair_node"
  RendererProps :: "(renderer_id \<times> actor_id) list"
  NextActor :: actor_id
  CompositeObservers :: "addr list"
  CrosshairObservers :: "addr list"
  StyleObservableEvents :: "style_event list"
  Calls :: "call list"

subsection \<open>Change classifier\<close>

text \<open>The value of \<^verbatim>\<open>double eps = 1.0e-12\<close>: the double nearest to the decimal literal.\<close>

definition eps :: real where
  "eps = RoundToDouble (1 / 10 ^ 12)"

definition DidCrosshairPositionChange :: "manager \<Rightarrow> bool" where
  "DidCrosshairPositionChange s =
     (case CrosshairNode s of
        None \<Rightarrow> False
      | Some n \<Rightarrow>
          (case (CrosshairRAS (CrosshairNodeCache s), CrosshairRAS (CrosshairNodes s n)) of
             ((c0, c1, c2), (r0, r1, r2)) \<Rightarrow>
               if \<bar>RoundToDouble (c0 - r0)\<bar> < eps
                  \<and> \<bar>RoundToDouble (c1 - r1)\<bar> < eps
                  \<and> \<bar>RoundToDouble (c2 - r2)\<bar> < eps
               then False else True))"

definition DidCrosshairPropertyChange :: "manager \<Rightarrow> bool" where
  "DidCrosshairPropertyChange s =
     (case CrosshairNode s of
        None \<Rightarrow> False
      | Some n \<Rightarrow>
          (let change = False;
               change = (if CrosshairMode (CrosshairNodeCache s) \<noteq> CrosshairMode (CrosshairNodes s n)
                         then True else change);
               change = (if CrosshairThickness (CrosshairNodeCache s)
                            \<noteq> CrosshairThickness (CrosshairNodes s n)
                         then True else change)
           in change))"

subsection \<open>Binding resolver\<close>

text \<open>
  \<^verbatim>\<open>RemoveObserver(command)\<close> takes every registration of the command off the object;
  \<^verbatim>\<open>AddObserver\<close> adds one registration.
\<close>

definition SetSliceCompositeNode :: "addr option \<Rightarrow> manager \<Rightarrow> manager" where
  "SetSliceCompositeNode compositeNode s =
     (if SliceCompositeNode s = compositeNode then s
      else
        (let s1 = (case SliceCompositeNode s of
                     None \<Rightarrow> s
                   | Some old \<Rightarrow> s\<lparr>CompositeObservers := removeAll old (CompositeObservers s)\<rparr>);
             s2 = s1\<lparr>SliceCompositeNode := compositeNode\<rparr>
         in (case compositeNode of
               None \<Rightarrow> s2
             | Some n \<Rightarrow> s2\<lparr>CompositeObservers := CompositeObservers s2 @ [n]\<rparr>)))"

definition SetCrosshairNode :: "addr option \<Rightarrow> manager \<Rightarrow> manager" where
  "SetCrosshairNode crosshairNode s =
     (if CrosshairNode s = crosshairNode then s
      else
        (let s1 = (case CrosshairNode s of
                     None \<Rightarrow> s
                   | Some old \<Rightarrow> s\<lparr>CrosshairObservers := removeAll old (CrosshairObservers s)\<rparr>);
             s2 = s1\<lparr>CrosshairNode := crosshairNode\<rparr>
         in (case crosshairNode of
               None \<Rightarrow> s2
             | Some n \<Rightarrow> s2\<lparr>CrosshairObservers := CrosshairObservers s2 @ [n]\<rparr>)))"

text \<open>
  The traversal of \<^verbatim>\<open>FindSliceCompositeNode\<close>.  \<open>names\<close> gives the layout name of the
  composite node at an address, \<open>sliceName\<close> is the layout name of the slice node.  The
  condition is evaluated left to right: a composite node without layout name is skipped
  before \<^verbatim>\<open>strcmp\<close> is reached, and \<^verbatim>\<open>strcmp\<close> with a null second argument is a null
  dereference.  When the traversal ends without a match, \<^verbatim>\<open>assert(0)\<close> aborts (the
  assertions are taken as compiled in).
\<close>

fun scanSliceComposite ::
    "(addr \<Rightarrow> string option) \<Rightarrow> string option \<Rightarrow> node_ref list \<Rightarrow> fault + addr option" where
  "scanSliceComposite names sliceName [] = Inl AssertionFailed"
| "scanSliceComposite names sliceName (SliceCompositeRef a # rest) =
     (case names a of
        None \<Rightarrow> scanSliceComposite names sliceName rest
      | Some n \<Rightarrow>
          (case sliceName of
             None \<Rightarrow> Inl NullPointer
           | Some l \<Rightarrow> if n = l then Inr (Some a) else scanSliceComposite names sliceName rest))"
| "scanSliceComposite names sliceName (CrosshairRef a # rest) =
     scanSliceComposite names sliceName rest"
| "scanSliceComposite names sliceName (OtherRef a # rest) =
     scanSliceComposite names sliceName rest"

definition FindSliceCompositeNode :: "manager \<Rightarrow> fault + addr option" where
  "FindSliceCompositeNode s =
     (case MRMLScene s of
        None \<Rightarrow> Inr None
      | Some sc \<Rightarrow>
          (case MRMLSliceNode s of
             None \<Rightarrow> Inr None
           | Some sn \<Rightarrow> scanSliceComposite (CompositeLayoutName s) (LayoutName sn) (CurrentScene sc)))"

text \<open>
  Modelled from the spec: \<^verbatim>\<open>GetNodesByClass("vtkMRMLCrosshairNode")\<close> of the scene, all
  crosshair-state objects in the scene, in scene order.
\<close>

fun GetCrosshairNodes :: "node_ref list \<Rightarrow> addr list" where
  "GetCrosshairNodes [] = []"
| "GetCrosshairNodes (CrosshairRef a # rest) = a # GetCrosshairNodes rest"
| "GetCrosshairNodes (SliceCompositeRef a # rest) = GetCrosshairNodes rest"
| "GetCrosshairNodes (OtherRef a # rest) = GetCrosshairNodes rest"

fun scanCrosshair :: "(addr \<Rightarrow> crosshair_node) \<Rightarrow> addr list \<Rightarrow> fault + addr option" where
  "scanCrosshair nodes [] = Inl AssertionFailed"
| "scanCrosshair nodes (a # rest) =
     (if CrosshairName (nodes a) = ''default'' then Inr (Some a) else scanCrosshair nodes rest)"

definition FindCrosshairNode :: "manager \<Rightarrow> fault + addr option" where
  "FindCrosshairNode s =
     (case MRMLScene s of
        None \<Rightarrow> Inr None
      | Some sc \<Rightarrow> scanCrosshair (CrosshairNodes s) (GetCrosshairNodes (CurrentScene sc)))"

text \<open>
  The condition under which \<^verbatim>\<open>UpdateSliceNode\<close> searches the composite node again,
  with C++'s short-circuit evaluation: the slice node is dereferenced only when a
  composite node with a layout name is bound.
\<close>

definition compositeIsStale :: "manager \<Rightarrow> fault + bool" where
  "compositeIsStale s =
     (case SliceCompositeNode s of
        None \<Rightarrow> Inr True
      | Some c \<Rightarrow>
          (case CompositeLayoutName s c of
             None \<Rightarrow> Inr True
           | Some n \<Rightarrow>
               (case MRMLSliceNode s of
                  None \<Rightarrow> Inl NullPointer
                | Some sn \<Rightarrow>
                    (case LayoutName sn of
                       None \<Rightarrow> Inl NullPointer
                     | Some l \<Rightarrow> Inr (n \<noteq> l)))))"

definition UpdateSliceNode :: "manager \<Rightarrow> fault + manager" where
  "UpdateSliceNode s =
     (if (case MRMLSliceNode s of None \<Rightarrow> False | Some sn \<Rightarrow> LayoutName sn = None)
      then Inl AssertionFailed
      else
        (case compositeIsStale s of
           Inl e \<Rightarrow> Inl e
         | Inr stale \<Rightarrow>
             (case (if stale
                    then (case FindSliceCompositeNode s of
                            Inl e \<Rightarrow> Inl e
                          | Inr sliceCompositeNode \<Rightarrow> Inr (SetSliceCompositeNode sliceCompositeNode s))
                    else Inr s) of
                Inl e \<Rightarrow> Inl e
              | Inr s1 \<Rightarrow>
                  (case FindCrosshairNode s1 of
                     Inl e \<Rightarrow> Inl e
                   | Inr crosshairNode \<Rightarrow> Inr (SetCrosshairNode crosshairNode s1)))))"

subsection \<open>Geometry builder\<close>

definition RemoveActor :: "renderer_id \<Rightarrow> actor_id \<Rightarrow> manager \<Rightarrow> manager" where
  "RemoveActor r a s =
     s\<lparr>RendererProps := removeAll (r, a) (RendererProps s),
       Calls := Calls s @ [RemoveActorCall r a]\<rparr>"

text \<open>A renderer holds a prop once: adding a prop it already has changes nothing.\<close>

definition AddActor :: "renderer_id \<Rightarrow> actor_id \<Rightarrow> manager \<Rightarrow> manager" where
  "AddActor r a s =
     s\<lparr>RendererProps := (if (r, a) \<in> set (RendererProps s) then RendererProps s
                          else RendererProps s @ [(r, a)]),
       Calls := Calls s @ [AddActorCall r a]\<rparr>"

type_synonym polydata = "(int \<times> int \<times> int) list \<times> (nat \<times> nat) list"

definition AddCrosshairLine :: "polydata \<Rightarrow> int \<Rightarrow> int \<Rightarrow> int \<Rightarrow> int \<Rightarrow> polydata" where
  "AddCrosshairLine pc p1x p1y p2x p2y =
     (case pc of (pts, cellArray) \<Rightarrow>
        (let p1 = length pts;
             pts1 = pts @ [(p1x, p1y, 0)];
             p2 = length pts1;
             pts2 = pts1 @ [(p2x, p2y, 0)]
         in (pts2, cellArray @ [(p1, p2)])))"

text \<open>The \<^verbatim>\<open>switch\<close> on the crosshair mode, on an empty poly data.\<close>

definition crosshairGeometry :: "crosshair_mode \<Rightarrow> int \<times> int \<Rightarrow> polydata" where
  "crosshairGeometry m screenSize =
     (let negW = - fst screenSize; negWminus = - 5; negWminus2 = - 10;
          posWplus = 5; posWplus2 = 10; posW = fst screenSize;
          negH = - snd screenSize; negHminus = - 5; negHminus2 = - 10;
          posHplus = 5; posHplus2 = 10; posH = snd screenSize;
          pd = ([], [])
      in case m of
           NoCrosshair \<Rightarrow> pd
         | ShowBasic \<Rightarrow>
             AddCrosshairLine
               (AddCrosshairLine
                 (AddCrosshairLine
                   (AddCrosshairLine pd 0 negH 0 negHminus)
                   0 posHplus 0 posH)
                 negW 0 negWminus 0)
               posWplus 0 posW 0
         | ShowIntersection \<Rightarrow>
             AddCrosshairLine (AddCrosshairLine pd negW 0 posW 0) 0 negH 0 posH
         | ShowSmallBasic \<Rightarrow>
             AddCrosshairLine
               (AddCrosshairLine
                 (AddCrosshairLine
                   (AddCrosshairLine pd 0 negHminus2 0 negHminus)
                   0 posHplus 0 posHplus2)
                 negWminus2 0 negWminus 0)
               posWplus 0 posWplus2 0
         | ShowSmallIntersection \<Rightarrow>
             AddCrosshairLine (AddCrosshairLine pd 0 negHminus2 0 posHplus2)
               negWminus2 0 posWplus2 0
         | OtherMode k \<Rightarrow> pd)"

definition lineWidthOf :: "crosshair_thickness \<Rightarrow> real option" where
  "lineWidthOf t =
     (if t = Fine then Some 1
      else if t = Medium then Some 3
      else if t = Thick then Some 5
      else None)"

text \<open>
  \<^verbatim>\<open>BuildCrosshair\<close>.  The screen size is read through the interactor after the old
  actor is released; without an interactor that read is a null dereference.  The new
  actor is a fresh object (\<open>NextActor\<close>); it is put into the current lightbox renderer
  before its geometry and properties are filled in.
\<close>

definition BuildCrosshair :: "manager \<Rightarrow> fault + manager" where
  "BuildCrosshair s =
     (case CrosshairNode s of
        None \<Rightarrow> Inr s
      | Some n \<Rightarrow>
          (let s1 = (case Actor s of
                       None \<Rightarrow> s
                     | Some old \<Rightarrow>
                         (case LightBoxRenderer s of
                            None \<Rightarrow> s
                          | Some r \<Rightarrow> RemoveActor r (ActorId old) s)\<lparr>Actor := None\<rparr>)
           in case InteractorScreenSize s1 of
                None \<Rightarrow> Inl NullPointer
              | Some screenSize \<Rightarrow>
                  (let node = CrosshairNodes s1 n;
                       new = NextActor s1;
                       s2 = s1\<lparr>NextActor := Suc new\<rparr>;
                       s3 = (case LightBoxRenderer s2 of
                               None \<Rightarrow> s2
                             | Some r \<Rightarrow> AddActor r new s2);
                       pd = crosshairGeometry (CrosshairMode node) screenSize;
                       actor = \<lparr>ActorId = new, Points = fst pd, Lines = snd pd,
                                LineWidth = lineWidthOf (CrosshairThickness node),
                                Color = (1, 8 / 10, 1 / 10), Opacity = 1,
                                Visibility = (CrosshairMode node \<noteq> NoCrosshair),
                                Position = None\<rparr>
                   in Inr (s3\<lparr>Actor := Some actor\<rparr>))))"

text \<open>The line segments of a glyph: each cell with the coordinates of its two points.\<close>

definition segments :: "actor2D \<Rightarrow> ((int \<times> int) \<times> (int \<times> int)) list" where
  "segments a =
     map (\<lambda>(i, j). (case (Points a ! i, Points a ! j) of
                       ((x1, y1, z1), (x2, y2, z2)) \<Rightarrow> ((x1, y1), (x2, y2))))
         (Lines a)"

subsection \<open>Matrices\<close>

text \<open>
  \<^verbatim>\<open>vtkMatrix4x4\<close> belongs to the VTK library, not to this file.  It is modelled over
  the reals, row by row: \<open>MultiplyPoint\<close> is the matrix-vector product and \<open>Invert\<close> is
  the adjoint divided by the determinant, the matrix being left as it is when the
  determinant is 0.
\<close>

definition vecNth :: "vec4 \<Rightarrow> nat \<Rightarrow> real" where
  "vecNth v i =
     (case v of (a, b, c, d) \<Rightarrow>
        if i = 0 then a else if i = 1 then b else if i = 2 then c else d)"

definition GetElement :: "mat4 \<Rightarrow> nat \<Rightarrow> nat \<Rightarrow> real" where
  "GetElement M i j =
     (case M of (r0, r1, r2, r3) \<Rightarrow>
        vecNth (if i = 0 then r0 else if i = 1 then r1 else if i = 2 then r2 else r3) j)"

definition mkVec :: "(nat \<Rightarrow> real) \<Rightarrow> vec4" where
  "mkVec f = (f 0, f 1, f 2, f 3)"

definition mkMat :: "(nat \<Rightarrow> nat \<Rightarrow> real) \<Rightarrow> mat4" where
  "mkMat f = (mkVec (f 0), mkVec (f 1), mkVec (f 2), mkVec (f 3))"

definition Identity :: mat4 where
  "Identity = mkMat (\<lambda>i j. if i = j then 1 else 0)"

definition MultiplyPoint :: "mat4 \<Rightarrow> vec4 \<Rightarrow> vec4" where
  "MultiplyPoint M v =
     mkVec (\<lambda>i. GetElement M i 0 * vecNth v 0 + GetElement M i 1 * vecNth v 1
               + GetElement M i 2 * vecNth v 2 + GetElement M i 3 * vecNth v 3)"

definition Multiply4x4 :: "mat4 \<Rightarrow> mat4 \<Rightarrow> mat4" where
  "Multiply4x4 A B =
     mkMat (\<lambda>i j. GetElement A i 0 * GetElement B 0 j + GetElement A i 1 * GetElement B 1 j
                 + GetElement A i 2 * GetElement B 2 j + GetElement A i 3 * GetElement B 3 j)"

definition Determinant3x3 ::
    "real \<Rightarrow> real \<Rightarrow> real \<Rightarrow> real \<Rightarrow> real \<Rightarrow> real \<Rightarrow> real \<Rightarrow> real \<Rightarrow> real \<Rightarrow> real" where
  "Determinant3x3 a1 a2 a3 b1 b2 b3 c1 c2 c3 =
     a1 * (b2 * c3 - b3 * c2) - b1 * (a2 * c3 - a3 * c2) + c1 * (a2 * b3 - a3 * b2)"

text \<open>The three indices of 0..3 other than \<open>i\<close>, in order.\<close>

definition others :: "nat \<Rightarrow> nat \<times> nat \<times> nat" where
  "others i =
     (if i = 0 then (1, 2, 3) else if i = 1 then (0, 2, 3)
      else if i = 2 then (0, 1, 3) else (0, 1, 2))"

text \<open>The determinant of the matrix without row \<open>i\<close> and column \<open>j\<close>.\<close>

definition minor :: "mat4 \<Rightarrow> nat \<Rightarrow> nat \<Rightarrow> real" where
  "minor M i j =
     (case (others i, others j) of
        ((i1, i2, i3), (j1, j2, j3)) \<Rightarrow>
          Determinant3x3
            (GetElement M i1 j1) (GetElement M i2 j1) (GetElement M i3 j1)
            (GetElement M i1 j2) (GetElement M i2 j2) (GetElement M i3 j2)
            (GetElement M i1 j3) (GetElement M i2 j3) (GetElement M i3 j3))"

definition Determinant :: "mat4 \<Rightarrow> real" where
  "Determinant M =
     GetElement M 0 0 * minor M 0 0 - GetElement M 0 1 * minor M 0 1
     + GetElement M 0 2 * minor M 0 2 - GetElement M 0 3 * minor M 0 3"

definition Adjoint :: "mat4 \<Rightarrow> mat4" where
  "Adjoint M = mkMat (\<lambda>i j. (if even (i + j) then 1 else - 1) * minor M j i)"

definition Invert :: "mat4 \<Rightarrow> mat4" where
  "Invert M =
     (let det = Determinant M
      in if det = 0 then M
         else mkMat (\<lambda>i j. GetElement (Adjoint M) i j / det))"

subsection \<open>Event handler\<close>

text \<open>
  The object that raised a notification: the manager's scene, a crosshair node (what
  \<^verbatim>\<open>vtkMRMLCrosshairNode::SafeDownCast(caller)\<close> accepts), or anything else.
\<close>

datatype caller = SceneCaller | CrosshairNodeCaller addr | OtherCaller

datatype event = SceneImportedEvent | SceneRestoredEvent | ModifiedEvent | OtherEvent

text \<open>
  The body of the position update (the block under
  \<^verbatim>\<open>if ((DidCrosshairPositionChange() || builtCrosshair) && Actor)\<close>).  Dividing by a zero
  \<^verbatim>\<open>pos[3]\<close> gives infinities or NaN in C++, which the reals do not have: the model
  stops there with \<open>NotFinite\<close>.
\<close>

definition positionActor :: "actor2D \<Rightarrow> manager \<Rightarrow> fault + manager" where
  "positionActor actor s =
     (case MRMLSliceNode s of
        None \<Rightarrow> Inl NullPointer
      | Some sn \<Rightarrow>
          (let rasToXYZ = Invert (XYToRAS sn)
           in case CrosshairNode s of
                None \<Rightarrow> Inl NullPointer
              | Some n \<Rightarrow>
                  (case CrosshairRAS (CrosshairNodes s n) of
                     (ras0, ras1, ras2) \<Rightarrow>
                       (case MultiplyPoint rasToXYZ (ras0, ras1, ras2, 1) of
                          (p0, p1, p2, p3) \<Rightarrow>
                            if p3 = 0 then Inl NotFinite
                            else
                              (let pos0 = p0 / p3; pos1 = p1 / p3; pos2 = p2 / p3;
                                   s1 = s\<lparr>Actor := Some (actor\<lparr>Position := Some (pos0, pos1)\<rparr>),
                                          Calls := Calls s @ [SetPositionCall pos0 pos1]\<rparr>
                               in Inr
                                    (case LightBoxRendererManagerProxy s1 of
                                       None \<Rightarrow> s1
                                     | Some proxy \<Rightarrow>
                                         (let s2 = s1\<lparr>Calls := Calls s1 @ [GetRendererCall pos2]\<rparr>;
                                              renderer = proxy pos2
                                          in if renderer \<noteq> LightBoxRenderer s2
                                             then
                                               (let s3 = (case LightBoxRenderer s2 of
                                                            None \<Rightarrow> s2
                                                          | Some r \<Rightarrow> RemoveActor r (ActorId actor) s2);
                                                    s4 = (case renderer of
                                                            None \<Rightarrow> s3
                                                          | Some r \<Rightarrow> AddActor r (ActorId actor) s3)
                                                in s4\<lparr>LightBoxRenderer := renderer\<rparr>)
                                             else s2)))))))"

text \<open>
  The branch of \<^verbatim>\<open>ProcessMRMLEvents\<close> for a modified crosshair node.  With no node
  bound the argument of \<^verbatim>\<open>CrosshairNodeCache->Copy(CrosshairNode)\<close> is null and the copy
  dereferences it.
\<close>

definition crosshairNodeModified :: "manager \<Rightarrow> fault + manager" where
  "crosshairNodeModified s =
     (case (if DidCrosshairPropertyChange s
            then (case BuildCrosshair s of Inl e \<Rightarrow> Inl e | Inr s1 \<Rightarrow> Inr (s1, True))
            else Inr (s, False)) of
        Inl e \<Rightarrow> Inl e
      | Inr (s1, builtCrosshair) \<Rightarrow>
          (case (if DidCrosshairPositionChange s1 \<or> builtCrosshair
                 then (case Actor s1 of None \<Rightarrow> Inr s1 | Some actor \<Rightarrow> positionActor actor s1)
                 else Inr s1) of
             Inl e \<Rightarrow> Inl e
           | Inr s2 \<Rightarrow>
               (case CrosshairNode s2 of
                  None \<Rightarrow> Inl NullPointer
                | Some n \<Rightarrow>
                    Inr (s2\<lparr>CrosshairNodeCache :=
                              Copy (CrosshairNodeCache s2) (CrosshairNodes s2 n),
                            Calls := Calls s2 @ [CacheCopyCall]\<rparr>))))"

text \<open>
  Modelled from the spec: \<^verbatim>\<open>RequestRender\<close> of the manager's base class, the render-request
  sink the manager calls after a processed notification.  The request is recorded.
\<close>

definition RequestRender :: "manager \<Rightarrow> manager" where
  "RequestRender s = s\<lparr>Calls := Calls s @ [RequestRenderCall]\<rparr>"

text \<open>
  \<open>SceneCaller\<close> is the manager's own scene, so \<^verbatim>\<open>caller == GetMRMLScene()\<close> holds for
  it exactly when the manager has a scene.
\<close>

definition ProcessMRMLEvents :: "caller \<Rightarrow> event \<Rightarrow> manager \<Rightarrow> fault + manager" where
  "ProcessMRMLEvents clr ev s =
     (if (case MRMLScene s of None \<Rightarrow> False | Some sc \<Rightarrow> clr = SceneCaller \<and> IsUpdating sc)
      then Inr s
      else if ev = SceneImportedEvent \<or> ev = SceneRestoredEvent
      then UpdateSliceNode s
      else
        (case (if ev = ModifiedEvent
               then (case clr of
                       CrosshairNodeCaller c \<Rightarrow> crosshairNodeModified s
                     | SceneCaller \<Rightarrow> Inr s
                     | OtherCaller \<Rightarrow> Inr s)
               else Inr s) of
           Inl e \<Rightarrow> Inl e
         | Inr s1 \<Rightarrow> Inr (RequestRender s1)))"

subsection \<open>Life cycle\<close>

text \<open>
  The constructor of \<^verbatim>\<open>vtkInternal\<close>: every pointer null, the cache a new crosshair node
  (\<open>fresh\<close>, whatever a new node holds).
\<close>

definition newInternal :: "crosshair_node \<Rightarrow> manager \<Rightarrow> manager" where
  "newInternal fresh s =
     s\<lparr>SliceCompositeNode := None, CrosshairNode := None, Actor := None,
       LightBoxRenderer := None, LightBoxRendererManagerProxy := None,
       CrosshairNodeCache := fresh\<rparr>"


definition AdditionalInitializeStep :: "manager \<Rightarrow> fault + manager" where
  "AdditionalInitializeStep s =
     BuildCrosshair (s\<lparr>StyleObservableEvents := StyleObservableEvents s @ [MouseMoveEvent]\<rparr>)"


subsection \<open>Concrete managers\<close>

text \<open>
  A manager right after construction in an empty world, and a scene with one composite
  node (address 7, layout \<open>Red\<close>) and one crosshair node (address 3, named \<open>default\<close>,
  at RAS (10, 20, 30), basic, medium) in front of a slice view \<open>Red\<close> whose XY-to-RAS
  matrix is the identity, on an 800 by 600 screen.
\<close>

definition newNode :: crosshair_node where
  "newNode = \<lparr>CrosshairName = [], CrosshairRAS = (0, 0, 0),
               CrosshairMode = NoCrosshair, CrosshairThickness = Fine\<rparr>"

definition defaultNode :: crosshair_node where
  "defaultNode = \<lparr>CrosshairName = ''default'', CrosshairRAS = (10, 20, 30),
                   CrosshairMode = ShowBasic, CrosshairThickness = Medium\<rparr>"

definition emptyManager :: manager where
  "emptyManager =
     \<lparr>SliceCompositeNode = None, CrosshairNode = None, Actor = None,
      CrosshairNodeCache = newNode, LightBoxRenderer = None,
      LightBoxRendererManagerProxy = None, MRMLScene = None, MRMLSliceNode = None,
      InteractorScreenSize = None, CompositeLayoutName = (\<lambda>a. None),
      CrosshairNodes = (\<lambda>a. newNode), RendererProps = [], NextActor = 0,
      CompositeObservers = [], CrosshairObservers = [], StyleObservableEvents = [],
      Calls = []\<rparr>"

definition redScene :: scene where
  "redScene = \<lparr>IsUpdating = False,
                CurrentScene = [OtherRef 1, SliceCompositeRef 7, CrosshairRef 3]\<rparr>"

definition redManager :: manager where
  "redManager =
     emptyManager
       \<lparr>MRMLScene := Some redScene,
        MRMLSliceNode := Some \<lparr>LayoutName = Some ''Red'', XYToRAS = Identity\<rparr>,
        InteractorScreenSize := Some (800, 600),
        CompositeLayoutName := (\<lambda>a. if a = 7 then Some ''Red'' else None),
        CrosshairNodes := (\<lambda>a. if a = 3 then defaultNode else newNode)\<rparr>"

text \<open>\<open>redManager\<close> without the nodes a view expects: no composite node has a layout
  name and no crosshair node is named \<open>default\<close>.\<close>

definition strayManager :: manager where
  "strayManager =
     redManager\<lparr>CompositeLayoutName := (\<lambda>a. None), CrosshairNodes := (\<lambda>a. newNode)\<rparr>"

text \<open>\<open>redManager\<close> after its bindings are resolved.\<close>

definition resolvedManager :: manager where
  "resolvedManager =
     redManager\<lparr>SliceCompositeNode := Some 7, CrosshairNode := Some 3,
                CompositeObservers := [7], CrosshairObservers := [3]\<rparr>"

text \<open>\<open>resolvedManager\<close> with a lightbox proxy that answers renderer 1 at every depth.\<close>

definition boundManager :: manager where
  "boundManager = resolvedManager\<lparr>LightBoxRendererManagerProxy := Some (\<lambda>z. Some 1)\<rparr>"

text \<open>\<open>boundManager\<close> after a notification of its crosshair node: the glyph is built, placed
  and in renderer 1.\<close>

definition shownManager :: manager where
  "shownManager =
     boundManager
       \<lparr>Actor := Some \<lparr>ActorId = 0,
           Points = [(0, - 600, 0), (0, - 5, 0), (0, 5, 0), (0, 600, 0),
                     (- 800, 0, 0), (- 5, 0, 0), (5, 0, 0), (800, 0, 0)],
           Lines = [(0, 1), (2, 3), (4, 5), (6, 7)], LineWidth = Some 3,
           Color = (1, 8 / 10, 1 / 10), Opacity = 1, Visibility = True,
           Position = Some (10, 20)\<rparr>,
        CrosshairNodeCache :=
          newNode\<lparr>CrosshairRAS := (10, 20, 30), CrosshairMode := ShowBasic,
                  CrosshairThickness := Medium\<rparr>,
        LightBoxRenderer := Some 1,
        RendererProps := [(1, 0)], NextActor := 1,
        Calls := [SetPositionCall 10 20, GetRendererCall 30, AddActorCall 1 0,
                  CacheCopyCall, RequestRenderCall]\<rparr>"

text \<open>\<open>boundManager\<close> while the scene is in a bulk update.\<close>

definition updatingManager :: manager where
  "updatingManager = boundManager\<lparr>MRMLScene := Some (redScene\<lparr>IsUpdating := True\<rparr>)\<rparr>"

text \<open>
  A bound crosshair node at the origin and a cache whose first coordinate is the double
  nearest to \<^verbatim>\<open>1e-12\<close>, \<^verbatim>\<open>0x1.19799812dea11p-40\<close>, which is \<open>4951760157141521 / 2 ^ 92\<close>.
\<close>

definition boundaryManager :: manager where
  "boundaryManager =
     emptyManager
       \<lparr>CrosshairNode := Some 3,
        CrosshairNodeCache := newNode\<lparr>CrosshairRAS := (4951760157141521 / 2 ^ 92, 0, 0)\<rparr>\<rparr>"

text \<open>The manager with the bulk-update flag of its scene, if it has one, set to \<open>b\<close>.\<close>

definition setUpdating :: "bool \<Rightarrow> manager \<Rightarrow> manager" where
  "setUpdating b s = s\<lparr>MRMLScene := map_option (\<lambda>sc. sc\<lparr>IsUpdating := b\<rparr>) (MRMLScene s)\<rparr>"

subsection \<open>The surfaces of the glyph\<close>




section \<open>Properties\<close>

lemmas manager_defs =
  emptyManager_def redManager_def strayManager_def resolvedManager_def boundManager_def
  shownManager_def updatingManager_def boundaryManager_def redScene_def newNode_def
  defaultNode_def

subsection \<open>Change classifier\<close>

lemma find_rev_upto:
  "a \<le> e \<Longrightarrow> e \<le> b \<Longrightarrow> P e \<Longrightarrow> \<forall>k. e < k \<and> k \<le> b \<longrightarrow> \<not> P k \<Longrightarrow>
   find P (rev [a..b]) = Some e"
proof (induction "nat (b - e)" arbitrary: b)
  case 0
  then have "b = e" by simp
  with 0 show ?case by (simp add: upto_rec2)
next
  case (Suc n)
  then have "e < b" by simp
  with Suc.prems have nb: "\<not> P b" by simp
  have "find P (rev [a..b - 1]) = Some e"
    using Suc by (intro Suc.hyps) auto
  with nb Suc.prems \<open>e < b\<close> show ?case by (simp add: upto_rec2)
qed

lemma binade_eq:
  assumes "2 powi e \<le> \<bar>x\<bar>" and "\<bar>x\<bar> < 2 powi (e + 1)"
    and "minExponent \<le> e" and "e \<le> maxExponent"
  shows "binade x = e"
proof -
  have "\<not> 2 powi k \<le> \<bar>x\<bar>" if "e < k" for k
  proof -
    have "(2::real) powi (e + 1) \<le> 2 powi k"
      using that by (intro power_int_increasing) auto
    with assms(2) show ?thesis by simp
  qed
  then have "find (\<lambda>e. 2 powi e \<le> \<bar>x\<bar>) (rev [minExponent .. maxExponent]) = Some e"
    using assms by (intro find_rev_upto) auto
  then show ?thesis by (simp add: binade_def)
qed

text \<open>A real within half a spacing above a double of its binade rounds to that double.\<close>

lemma RoundToDouble_eq:
  assumes "2 powi (binade x - 52) = q" and "0 < q" and "x \<noteq> 0"
    and "of_int m * q \<le> x" and "x < (of_int m + 1 / 2) * q"
  shows "RoundToDouble x = of_int m * q"
proof -
  have 1: "of_int m \<le> x / q" and 2: "x / q < of_int m + 1 / 2"
    using assms by (simp_all add: field_simps)
  then have f: "\<lfloor>x / q\<rfloor> = m"
    by (intro floor_unique) auto
  from 2 have "x / q - of_int m < 1 / 2" by linarith
  then have "roundTiesToEven (x / q) = m"
    unfolding roundTiesToEven_def Let_def f by (simp only: if_True)
  with assms(1,3) show ?thesis
    by (simp add: RoundToDouble_def Let_def)
qed

lemma RoundToDouble_zero [simp]: "RoundToDouble 0 = 0"
  by (simp add: RoundToDouble_def)

lemma powi_40:
  "(2::real) powi (- 40) = 1 / 2 ^ 40" "(2::real) powi (- 39) = 1 / 2 ^ 39"
  "(2::real) powi (- 92) = 1 / 2 ^ 92"
  by (simp_all add: power_int_minus field_simps)

lemma binade_literal: "binade (1 / 10 ^ 12) = - 40"
proof (rule binade_eq)
  show "2 powi (- 40) \<le> \<bar>(1::real) / 10 ^ 12\<bar>"
    unfolding powi_40 by simp
  show "\<bar>(1::real) / 10 ^ 12\<bar> < 2 powi (- 40 + 1)"
    using powi_40(2) by simp
qed (simp_all add: minExponent_def maxExponent_def)

lemma binade_boundary: "binade (4951760157141521 / 2 ^ 92) = - 40"
proof (rule binade_eq)
  show "2 powi (- 40) \<le> \<bar>(4951760157141521::real) / 2 ^ 92\<bar>"
    unfolding powi_40 by simp
  show "\<bar>(4951760157141521::real) / 2 ^ 92\<bar> < 2 powi (- 40 + 1)"
    using powi_40(2) by simp
qed (simp_all add: minExponent_def maxExponent_def)

text \<open>The tolerance is the double \<^verbatim>\<open>0x1.19799812dea11p-40\<close>, a little below \<open>1 / 10 ^ 12\<close>.\<close>

lemma eps_value: "eps = 4951760157141521 / 2 ^ 92"
proof -
  have "RoundToDouble (1 / 10 ^ 12) = of_int 4951760157141521 * (1 / 2 ^ 92)"
  proof (rule RoundToDouble_eq)
    show "2 powi (binade (1 / 10 ^ 12) - 52) = (1::real) / 2 ^ 92"
      by (simp only: binade_literal) (simp add: powi_40)
  qed simp_all
  then show ?thesis by (simp add: eps_def)
qed

lemma RoundToDouble_boundary:
  "RoundToDouble (4951760157141521 / 2 ^ 92) = 4951760157141521 / 2 ^ 92"
proof -
  have "RoundToDouble (4951760157141521 / 2 ^ 92) = of_int 4951760157141521 * (1 / 2 ^ 92)"
  proof (rule RoundToDouble_eq)
    show "2 powi (binade (4951760157141521 / 2 ^ 92) - 52) = (1::real) / 2 ^ 92"
      by (simp only: binade_boundary) (simp add: powi_40)
  qed simp_all
  then show ?thesis by simp
qed

text \<open>
  C1, as the code has it.  \<^verbatim>\<open>DidCrosshairPositionChange\<close> is true exactly when a crosshair
  node is bound and, for at least one of the three coordinates, the difference to the
  cached coordinate as the double subtraction computes it has a magnitude of at least
  the double nearest to \<^verbatim>\<open>1e-12\<close>, which is \<open>4951760157141521 / 2 ^ 92\<close>.  So it is false
  when no node is bound, and false when every one of the three computed differences is
  strictly below that double.
\<close>

theorem position_change_strict_tolerance:
  "DidCrosshairPositionChange s \<longleftrightarrow>
     (\<exists>n. CrosshairNode s = Some n \<and>
          (case (CrosshairRAS (CrosshairNodeCache s), CrosshairRAS (CrosshairNodes s n)) of
             ((c0, c1, c2), (r0, r1, r2)) \<Rightarrow>
               4951760157141521 / 2 ^ 92 \<le> \<bar>RoundToDouble (c0 - r0)\<bar> \<or>
               4951760157141521 / 2 ^ 92 \<le> \<bar>RoundToDouble (c1 - r1)\<bar> \<or>
               4951760157141521 / 2 ^ 92 \<le> \<bar>RoundToDouble (c2 - r2)\<bar>))"
  unfolding DidCrosshairPositionChange_def eps_value
  by (auto split: option.splits)

theorem position_change_strict_tolerance_witness:
  "CrosshairNode boundaryManager = Some 3 \<and>
   CrosshairRAS (CrosshairNodeCache boundaryManager) = (4951760157141521 / 2 ^ 92, 0, 0) \<and>
   CrosshairRAS (CrosshairNodes boundaryManager 3) = (0, 0, 0) \<and>
   (4951760157141521::real) / 2 ^ 92 \<le> \<bar>RoundToDouble (4951760157141521 / 2 ^ 92 - 0)\<bar> \<and>
   DidCrosshairPositionChange boundaryManager"
proof -
  have h: "CrosshairNode boundaryManager = Some 3"
    "CrosshairRAS (CrosshairNodeCache boundaryManager) = (4951760157141521 / 2 ^ 92, 0, 0)"
    "CrosshairRAS (CrosshairNodes boundaryManager 3) = (0, 0, 0)"
    by (simp_all add: manager_defs)
  have r: "(4951760157141521::real) / 2 ^ 92 \<le> \<bar>RoundToDouble (4951760157141521 / 2 ^ 92 - 0)\<bar>"
    unfolding diff_zero RoundToDouble_boundary by simp
  have "\<exists>n. CrosshairNode boundaryManager = Some n \<and>
          (case (CrosshairRAS (CrosshairNodeCache boundaryManager),
                 CrosshairRAS (CrosshairNodes boundaryManager n)) of
             ((c0, c1, c2), (r0, r1, r2)) \<Rightarrow>
               4951760157141521 / 2 ^ 92 \<le> \<bar>RoundToDouble (c0 - r0)\<bar> \<or>
               4951760157141521 / 2 ^ 92 \<le> \<bar>RoundToDouble (c1 - r1)\<bar> \<or>
               4951760157141521 / 2 ^ 92 \<le> \<bar>RoundToDouble (c2 - r2)\<bar>)"
    using r by (intro exI [of _ 3]) (simp only: h prod.case simp_thms)
  then have "DidCrosshairPositionChange boundaryManager"
    by (simp only: position_change_strict_tolerance [of boundaryManager])
  with h r show ?thesis by (simp only: simp_thms)
qed

text \<open>
  C1 as stated fails on the boundary.  The cached first coordinate is the double
  nearest to \<^verbatim>\<open>1e-12\<close> and the node is at the origin: every coordinate is a double, the
  subtraction is exact, every difference has a magnitude of at most \<^verbatim>\<open>1e-12\<close> (the first
  is even below \<open>1 / 10 ^ 12\<close>), and the position is reported as changed.
\<close>

theorem position_change_boundary_counterexample:
  "CrosshairNode boundaryManager = Some 3 \<and>
   CrosshairRAS (CrosshairNodeCache boundaryManager) = (4951760157141521 / 2 ^ 92, 0, 0) \<and>
   CrosshairRAS (CrosshairNodes boundaryManager 3) = (0, 0, 0) \<and>
   RoundToDouble (4951760157141521 / 2 ^ 92) = 4951760157141521 / 2 ^ 92 \<and>
   RoundToDouble (4951760157141521 / 2 ^ 92 - 0) = 4951760157141521 / 2 ^ 92 - 0 \<and>
   \<bar>4951760157141521 / 2 ^ 92 - 0\<bar> < (1::real) / 10 ^ 12 \<and> \<bar>0 - 0\<bar> \<le> (1::real) / 10 ^ 12 \<and>
   \<bar>4951760157141521 / 2 ^ 92 - 0\<bar> \<le> eps \<and>
   DidCrosshairPositionChange boundaryManager"
proof -
  have h: "CrosshairNode boundaryManager = Some 3"
    "CrosshairRAS (CrosshairNodeCache boundaryManager) = (4951760157141521 / 2 ^ 92, 0, 0)"
    "CrosshairRAS (CrosshairNodes boundaryManager 3) = (0, 0, 0)"
    by (simp_all add: manager_defs)
  have r: "RoundToDouble (4951760157141521 / 2 ^ 92 - 0) = 4951760157141521 / 2 ^ 92 - 0"
    by (simp only: diff_zero RoundToDouble_boundary)
  have e: "\<bar>4951760157141521 / 2 ^ 92 - 0\<bar> \<le> eps"
    unfolding eps_value by simp
  have "\<not> \<bar>RoundToDouble (4951760157141521 / 2 ^ 92 - 0)\<bar> < eps"
    unfolding r eps_value by simp
  then have "DidCrosshairPositionChange boundaryManager"
    by (simp only: DidCrosshairPositionChange_def h option.case prod.case simp_thms if_False)
  moreover have "\<bar>4951760157141521 / 2 ^ 92 - 0\<bar> < (1::real) / 10 ^ 12"
    by simp
  moreover have "\<bar>0 - 0\<bar> \<le> (1::real) / 10 ^ 12"
    by simp
  ultimately show ?thesis
    using h r e RoundToDouble_boundary by (simp only: simp_thms)
qed

text \<open>
  C2.  \<^verbatim>\<open>DidCrosshairPropertyChange\<close> is true exactly when a crosshair node is bound and
  its mode or its thickness is not equal to the cached one; in particular it is false
  when no node is bound.
\<close>

theorem property_change_iff:
  "DidCrosshairPropertyChange s \<longleftrightarrow>
     (\<exists>n. CrosshairNode s = Some n \<and>
          (CrosshairMode (CrosshairNodes s n) \<noteq> CrosshairMode (CrosshairNodeCache s) \<or>
           CrosshairThickness (CrosshairNodes s n) \<noteq> CrosshairThickness (CrosshairNodeCache s)))"
  by (auto simp: DidCrosshairPropertyChange_def Let_def split: option.splits)

theorem property_change_iff_witness:
  "CrosshairNode boundManager = Some 3 \<and>
   CrosshairMode (CrosshairNodes boundManager 3) \<noteq> CrosshairMode (CrosshairNodeCache boundManager) \<and>
   DidCrosshairPropertyChange boundManager \<and>
   CrosshairNode redManager = None \<and> \<not> DidCrosshairPropertyChange redManager"
  using property_change_iff [of boundManager] property_change_iff [of redManager]
  by (simp add: manager_defs)

subsection \<open>Geometry builder\<close>

lemma basic_geometry:
  "crosshairGeometry ShowBasic (w, h) =
     ([(0, - h, 0), (0, - 5, 0), (0, 5, 0), (0, h, 0),
       (- w, 0, 0), (- 5, 0, 0), (5, 0, 0), (w, 0, 0)],
      [(0, 1), (2, 3), (4, 5), (6, 7)])"
  by (simp add: crosshairGeometry_def AddCrosshairLine_def Let_def)

text \<open>
  C4.  With a crosshair node bound whose mode is basic and whose thickness is medium, on
  a screen of \<open>w\<close> by \<open>h\<close> pixels, \<^verbatim>\<open>BuildCrosshair\<close> returns with a glyph of four
  segments, each from 5 pixels off the centre to the screen size along one half-axis,
  of line width 3, colour (1, 0.8, 0.1), opacity 1, visible.  At 800 by 600 the segment
  from (0, -600) to (0, -5) is one of the four.
\<close>

theorem basic_medium_glyph:
  assumes "CrosshairNode s = Some n"
    and "CrosshairMode (CrosshairNodes s n) = ShowBasic"
    and "CrosshairThickness (CrosshairNodes s n) = Medium"
    and "InteractorScreenSize s = Some (w, h)"
  shows "\<exists>s' a. BuildCrosshair s = Inr s' \<and> Actor s' = Some a \<and>
           segments a = [((0, - h), (0, - 5)), ((0, 5), (0, h)),
                         ((- w, 0), (- 5, 0)), ((5, 0), (w, 0))] \<and>
           LineWidth a = Some 3 \<and> Color a = (1, 8 / 10, 1 / 10) \<and> Opacity a = 1 \<and>
           Visibility a \<and>
           (w = 800 \<and> h = 600 \<longrightarrow>
              length (segments a) = 4 \<and> ((0, - 600), (0, - 5)) \<in> set (segments a))"
  using assms
  by (auto simp: BuildCrosshair_def Let_def RemoveActor_def AddActor_def basic_geometry
      lineWidthOf_def segments_def split: option.splits)

theorem basic_medium_glyph_witness:
  "CrosshairNode boundManager = Some 3 \<and>
   CrosshairMode (CrosshairNodes boundManager 3) = ShowBasic \<and>
   CrosshairThickness (CrosshairNodes boundManager 3) = Medium \<and>
   InteractorScreenSize boundManager = Some (800, 600) \<and>
   map_sum id (map_option segments \<circ> Actor) (BuildCrosshair boundManager) =
     Inr (Some [((0, - 600), (0, - 5)), ((0, 5), (0, 600)),
                ((- 800, 0), (- 5, 0)), ((5, 0), (800, 0))])"
proof -
  have h: "CrosshairNode boundManager = Some 3"
    "CrosshairMode (CrosshairNodes boundManager 3) = ShowBasic"
    "CrosshairThickness (CrosshairNodes boundManager 3) = Medium"
    "InteractorScreenSize boundManager = Some (800, 600)"
    by (simp_all add: manager_defs)
  from basic_medium_glyph [OF h] show ?thesis
    using h by auto
qed

text \<open>
  C10.  With no crosshair node bound \<^verbatim>\<open>BuildCrosshair\<close> returns the manager as it is.
  \<^verbatim>\<open>AdditionalInitializeStep\<close> then only records the interactor style event it asks for,
  and run on a newly constructed manager it leaves the manager without a glyph.
\<close>

theorem build_unbound_noop:
  assumes "CrosshairNode s = None"
  shows "BuildCrosshair s = Inr s \<and>
         AdditionalInitializeStep s =
           Inr (s\<lparr>StyleObservableEvents := StyleObservableEvents s @ [MouseMoveEvent]\<rparr>) \<and>
         map_sum id Actor (AdditionalInitializeStep (newInternal fresh s)) = Inr None"
  using assms by (simp add: BuildCrosshair_def AdditionalInitializeStep_def newInternal_def)

theorem build_unbound_noop_witness:
  "CrosshairNode redManager = None \<and> BuildCrosshair redManager = Inr redManager \<and>
   map_sum id Actor (AdditionalInitializeStep redManager) = Inr None"
  using build_unbound_noop [of redManager]
  by (simp add: manager_defs)

subsection \<open>Binding resolver\<close>

lemma set_GetCrosshairNodes: "set (GetCrosshairNodes refs) = {a. CrosshairRef a \<in> set refs}"
  by (induction refs rule: GetCrosshairNodes.induct) auto

lemma scanCrosshair_absent:
  "\<forall>a \<in> set xs. CrosshairName (nodes a) \<noteq> ''default'' \<Longrightarrow>
   scanCrosshair nodes xs = Inl AssertionFailed"
  by (induction xs) auto

lemma scanCrosshair_present:
  "a \<in> set xs \<Longrightarrow> CrosshairName (nodes a) = ''default'' \<Longrightarrow>
   \<exists>b. scanCrosshair nodes xs = Inr (Some b) \<and> b \<in> set xs \<and>
       CrosshairName (nodes b) = ''default''"
  by (induction xs) auto

lemma scanSliceComposite_absent:
  "\<forall>a. SliceCompositeRef a \<in> set refs \<longrightarrow> names a \<noteq> Some l \<Longrightarrow>
   scanSliceComposite names (Some l) refs = Inl AssertionFailed"
  by (induction names "Some l" refs rule: scanSliceComposite.induct) (auto split: option.splits)

lemma scanSliceComposite_present:
  "SliceCompositeRef a \<in> set refs \<Longrightarrow> names a = Some l \<Longrightarrow>
   \<exists>b. scanSliceComposite names (Some l) refs = Inr (Some b) \<and>
       SliceCompositeRef b \<in> set refs \<and> names b = Some l"
  by (induction names "Some l" refs rule: scanSliceComposite.induct) (auto split: option.splits)

text \<open>
  C8.  The manager has a scene.  If no crosshair node of the scene is named \<open>default\<close>,
  \<^verbatim>\<open>FindCrosshairNode\<close> ends in the failed assertion; if one is, it returns a crosshair
  node of the scene named \<open>default\<close>.  With a slice node whose layout name is \<open>l\<close>: if
  no composite node of the scene has layout name \<open>l\<close>, \<^verbatim>\<open>FindSliceCompositeNode\<close> ends
  in the failed assertion; if one has, it returns a composite node of the scene with
  layout name \<open>l\<close>.  Neither returns a null or substitute node after a traversal.
\<close>

theorem find_faults_or_returns_expected:
  assumes "MRMLScene s = Some sc"
  shows "((\<forall>a. CrosshairRef a \<in> set (CurrentScene sc) \<longrightarrow>
              CrosshairName (CrosshairNodes s a) \<noteq> ''default'') \<longrightarrow>
            FindCrosshairNode s = Inl AssertionFailed) \<and>
         (CrosshairRef a \<in> set (CurrentScene sc) \<and>
            CrosshairName (CrosshairNodes s a) = ''default'' \<longrightarrow>
            (\<exists>b. FindCrosshairNode s = Inr (Some b) \<and> CrosshairRef b \<in> set (CurrentScene sc) \<and>
                 CrosshairName (CrosshairNodes s b) = ''default'')) \<and>
         (MRMLSliceNode s = Some sn \<and> LayoutName sn = Some l \<longrightarrow>
            ((\<forall>c. SliceCompositeRef c \<in> set (CurrentScene sc) \<longrightarrow>
                  CompositeLayoutName s c \<noteq> Some l) \<longrightarrow>
               FindSliceCompositeNode s = Inl AssertionFailed) \<and>
            (SliceCompositeRef c \<in> set (CurrentScene sc) \<and> CompositeLayoutName s c = Some l \<longrightarrow>
               (\<exists>b. FindSliceCompositeNode s = Inr (Some b) \<and>
                    SliceCompositeRef b \<in> set (CurrentScene sc) \<and>
                    CompositeLayoutName s b = Some l)))"
proof (intro conjI impI)
  assume "\<forall>a. CrosshairRef a \<in> set (CurrentScene sc) \<longrightarrow>
              CrosshairName (CrosshairNodes s a) \<noteq> ''default''"
  then show "FindCrosshairNode s = Inl AssertionFailed"
    using assms by (simp add: FindCrosshairNode_def scanCrosshair_absent set_GetCrosshairNodes)
next
  assume "CrosshairRef a \<in> set (CurrentScene sc) \<and>
            CrosshairName (CrosshairNodes s a) = ''default''"
  then have "a \<in> set (GetCrosshairNodes (CurrentScene sc))"
    and "CrosshairName (CrosshairNodes s a) = ''default''"
    by (simp_all add: set_GetCrosshairNodes)
  then have "\<exists>b. scanCrosshair (CrosshairNodes s) (GetCrosshairNodes (CurrentScene sc)) =
                   Inr (Some b) \<and>
      b \<in> set (GetCrosshairNodes (CurrentScene sc)) \<and>
      CrosshairName (CrosshairNodes s b) = ''default''"
    by (rule scanCrosshair_present [of a _ "CrosshairNodes s"])
  then show "\<exists>b. FindCrosshairNode s = Inr (Some b) \<and> CrosshairRef b \<in> set (CurrentScene sc) \<and>
                 CrosshairName (CrosshairNodes s b) = ''default''"
    using assms by (auto simp: FindCrosshairNode_def set_GetCrosshairNodes)
next
  assume "MRMLSliceNode s = Some sn \<and> LayoutName sn = Some l"
    and "\<forall>c. SliceCompositeRef c \<in> set (CurrentScene sc) \<longrightarrow>
                  CompositeLayoutName s c \<noteq> Some l"
  then show "FindSliceCompositeNode s = Inl AssertionFailed"
    using assms by (simp add: FindSliceCompositeNode_def scanSliceComposite_absent)
next
  assume sn: "MRMLSliceNode s = Some sn \<and> LayoutName sn = Some l"
    and "SliceCompositeRef c \<in> set (CurrentScene sc) \<and> CompositeLayoutName s c = Some l"
  then have "SliceCompositeRef c \<in> set (CurrentScene sc)" and "CompositeLayoutName s c = Some l"
    by simp_all
  then have "\<exists>b. scanSliceComposite (CompositeLayoutName s) (Some l) (CurrentScene sc) =
                   Inr (Some b) \<and>
       SliceCompositeRef b \<in> set (CurrentScene sc) \<and> CompositeLayoutName s b = Some l"
    by (rule scanSliceComposite_present [of c _ "CompositeLayoutName s"])
  then show "\<exists>b. FindSliceCompositeNode s = Inr (Some b) \<and>
                    SliceCompositeRef b \<in> set (CurrentScene sc) \<and>
                    CompositeLayoutName s b = Some l"
    using assms sn by (auto simp: FindSliceCompositeNode_def)
qed

theorem find_faults_or_returns_expected_witness:
  "FindCrosshairNode redManager = Inr (Some 3) \<and>
   FindSliceCompositeNode redManager = Inr (Some 7) \<and>
   FindCrosshairNode strayManager = Inl AssertionFailed \<and>
   FindSliceCompositeNode strayManager = Inl AssertionFailed"
proof -
  have r: "MRMLScene redManager = Some redScene" and t: "MRMLScene strayManager = Some redScene"
    by (simp_all add: manager_defs)
  have "\<exists>b. FindCrosshairNode redManager = Inr (Some b) \<and>
            CrosshairRef b \<in> set (CurrentScene redScene) \<and>
            CrosshairName (CrosshairNodes redManager b) = ''default''"
    using find_faults_or_returns_expected [OF r, of 3] by (simp add: manager_defs)
  then have 1: "FindCrosshairNode redManager = Inr (Some 3)"
    by (auto simp: manager_defs)
  have "\<exists>b. FindSliceCompositeNode redManager = Inr (Some b) \<and>
            SliceCompositeRef b \<in> set (CurrentScene redScene) \<and>
            CompositeLayoutName redManager b = Some ''Red''"
    using find_faults_or_returns_expected
            [OF r, of _ "\<lparr>LayoutName = Some ''Red'', XYToRAS = Identity\<rparr>" "''Red''" 7]
    by (simp add: manager_defs)
  then have 2: "FindSliceCompositeNode redManager = Inr (Some 7)"
    by (auto simp: manager_defs)
  have 3: "FindCrosshairNode strayManager = Inl AssertionFailed"
    using find_faults_or_returns_expected [OF t] by (simp add: manager_defs)
  have 4: "FindSliceCompositeNode strayManager = Inl AssertionFailed"
    using find_faults_or_returns_expected
            [OF t, of _ "\<lparr>LayoutName = Some ''Red'', XYToRAS = Identity\<rparr>" "''Red''"]
    by (simp add: manager_defs)
  from 1 2 3 4 show ?thesis by simp
qed

subsection \<open>Event handler\<close>

lemma Invert_Identity: "Invert Identity = Identity"
  by (simp add: Invert_def Identity_def Determinant_def minor_def others_def GetElement_def
      vecNth_def mkMat_def mkVec_def Determinant3x3_def Adjoint_def)

lemma MultiplyPoint_Identity: "MultiplyPoint Identity (a, b, c, d) = (a, b, c, d)"
  by (simp add: MultiplyPoint_def Identity_def GetElement_def vecNth_def mkMat_def mkVec_def)

lemma BuildCrosshair_frame:
  assumes "BuildCrosshair s = Inr s1"
  shows "CrosshairNode s1 = CrosshairNode s" "CrosshairNodes s1 = CrosshairNodes s"
    "CrosshairNodeCache s1 = CrosshairNodeCache s" "MRMLSliceNode s1 = MRMLSliceNode s"
    "MRMLScene s1 = MRMLScene s"
    "LightBoxRendererManagerProxy s1 = LightBoxRendererManagerProxy s"
    "LightBoxRenderer s1 = LightBoxRenderer s"
    "\<exists>more. Calls s1 = Calls s @ more \<and> CacheCopyCall \<notin> set more \<and> RequestRenderCall \<notin> set more"
  using assms
  by (auto simp: BuildCrosshair_def Let_def RemoveActor_def AddActor_def split: option.splits)

lemma BuildCrosshair_bound:
  assumes "CrosshairNode s = Some n" "InteractorScreenSize s = Some sz"
  shows "\<exists>s1 a. BuildCrosshair s = Inr s1 \<and> Actor s1 = Some a \<and> ActorId a = NextActor s"
  using assms
  by (auto simp: BuildCrosshair_def Let_def RemoveActor_def AddActor_def split: option.splits)

lemma positionActor_result:
  assumes "MRMLSliceNode s = Some sn" "CrosshairNode s = Some n"
    and "CrosshairRAS (CrosshairNodes s n) = (r0, r1, r2)"
    and "MultiplyPoint (Invert (XYToRAS sn)) (r0, r1, r2, 1) = (p0, p1, p2, p3)"
    and "p3 \<noteq> 0"
  shows "\<exists>s' rest. positionActor a s = Inr s' \<and>
           Actor s' = Some (a\<lparr>Position := Some (p0 / p3, p1 / p3)\<rparr>) \<and>
           Calls s' = Calls s @ SetPositionCall (p0 / p3) (p1 / p3) # rest \<and>
           (LightBoxRendererManagerProxy s \<noteq> None \<longrightarrow>
              (\<exists>more. rest = GetRendererCall (p2 / p3) # more))"
  using assms
  by (auto simp: positionActor_def Let_def RemoveActor_def AddActor_def split: option.splits)

lemma positionActor_frame:
  assumes "positionActor a s = Inr s1"
  shows "CrosshairNode s1 = CrosshairNode s" "CrosshairNodes s1 = CrosshairNodes s"
    "CrosshairNodeCache s1 = CrosshairNodeCache s"
    "\<exists>more. Calls s1 = Calls s @ more \<and> CacheCopyCall \<notin> set more \<and> RequestRenderCall \<notin> set more"
  using assms
  by (auto simp: positionActor_def Let_def RemoveActor_def AddActor_def
      split: option.splits prod.splits if_splits)

lemma classifier_synchronized:
  "CrosshairNode s = Some n \<Longrightarrow> CrosshairNodeCache s = Copy c (CrosshairNodes s n) \<Longrightarrow>
   \<not> DidCrosshairPropertyChange s \<and> \<not> DidCrosshairPositionChange s"
  by (simp add: DidCrosshairPropertyChange_def DidCrosshairPositionChange_def Copy_def
      eps_value split: prod.splits)

text \<open>The three stages of the branch for a modified crosshair node, one after the other.\<close>

lemma crosshairNodeModified_stages:
  assumes "crosshairNodeModified s = Inr s'"
  obtains s1 s2 n where
    "if DidCrosshairPropertyChange s then BuildCrosshair s = Inr s1 else s1 = s"
    and "if DidCrosshairPositionChange s1 \<or> DidCrosshairPropertyChange s
         then (case Actor s1 of None \<Rightarrow> s2 = s1 | Some a \<Rightarrow> positionActor a s1 = Inr s2)
         else s2 = s1"
    and "CrosshairNode s2 = Some n"
    and "s' = s2\<lparr>CrosshairNodeCache := Copy (CrosshairNodeCache s2) (CrosshairNodes s2 n),
              Calls := Calls s2 @ [CacheCopyCall]\<rparr>"
proof -
  obtain s1 where s1: "(if DidCrosshairPropertyChange s
            then (case BuildCrosshair s of Inl e \<Rightarrow> Inl e | Inr s1 \<Rightarrow> Inr (s1, True))
            else Inr (s, False)) = Inr (s1, DidCrosshairPropertyChange s)"
    using assms
    by (cases "DidCrosshairPropertyChange s"; cases "BuildCrosshair s")
       (simp_all add: crosshairNodeModified_def)
  then have b: "if DidCrosshairPropertyChange s then BuildCrosshair s = Inr s1 else s1 = s"
    by (auto split: if_splits sum.splits)
  obtain s2 where s2: "(if DidCrosshairPositionChange s1 \<or> DidCrosshairPropertyChange s
                 then (case Actor s1 of None \<Rightarrow> Inr s1 | Some actor \<Rightarrow> positionActor actor s1)
                 else Inr s1) = Inr s2"
    using assms s1 by (simp add: crosshairNodeModified_def split: sum.splits)
  then have p: "if DidCrosshairPositionChange s1 \<or> DidCrosshairPropertyChange s
         then (case Actor s1 of None \<Rightarrow> s2 = s1 | Some a \<Rightarrow> positionActor a s1 = Inr s2)
         else s2 = s1"
    by (auto split: if_splits option.splits)
  from assms s1 s2 obtain n where "CrosshairNode s2 = Some n"
    and "s' = s2\<lparr>CrosshairNodeCache := Copy (CrosshairNodeCache s2) (CrosshairNodes s2 n),
              Calls := Calls s2 @ [CacheCopyCall]\<rparr>"
    by (auto simp: crosshairNodeModified_def split: option.splits)
  with b p show thesis by (rule that)
qed

lemma crosshairNodeModified_forward:
  assumes "if DidCrosshairPropertyChange s then BuildCrosshair s = Inr s1 else s1 = s"
    and "if DidCrosshairPositionChange s1 \<or> DidCrosshairPropertyChange s
         then (case Actor s1 of None \<Rightarrow> s2 = s1 | Some a \<Rightarrow> positionActor a s1 = Inr s2)
         else s2 = s1"
    and "CrosshairNode s2 = Some n"
  shows "crosshairNodeModified s =
           Inr (s2\<lparr>CrosshairNodeCache := Copy (CrosshairNodeCache s2) (CrosshairNodes s2 n),
              Calls := Calls s2 @ [CacheCopyCall]\<rparr>)"
  using assms by (auto simp: crosshairNodeModified_def split: if_splits option.splits)

lemma crosshairNodeModified_total:
  assumes "CrosshairNode s = Some n" "MRMLSliceNode s = Some sn" "InteractorScreenSize s = Some sz"
    and "CrosshairRAS (CrosshairNodes s n) = (r0, r1, r2)"
    and "MultiplyPoint (Invert (XYToRAS sn)) (r0, r1, r2, 1) = (p0, p1, p2, p3)"
    and "p3 \<noteq> 0"
  shows "\<exists>s'. crosshairNodeModified s = Inr s'"
proof -
  obtain s1 where s1: "(if DidCrosshairPropertyChange s
       then (case BuildCrosshair s of Inl e \<Rightarrow> Inl e | Inr s1 \<Rightarrow> Inr (s1, True))
       else Inr (s, False)) = Inr (s1, DidCrosshairPropertyChange s)"
    and b: "s1 = s \<or> BuildCrosshair s = Inr s1"
    using BuildCrosshair_bound [OF assms(1,3)] by (cases "DidCrosshairPropertyChange s") auto
  from b have f: "CrosshairNode s1 = Some n" "MRMLSliceNode s1 = Some sn"
    "CrosshairRAS (CrosshairNodes s1 n) = (r0, r1, r2)"
    using BuildCrosshair_frame [of s s1] assms by auto
  have pos: "\<exists>s2. positionActor a s1 = Inr s2 \<and> CrosshairNode s2 = Some n" for a
  proof -
    from positionActor_result [OF f(2) f(1) f(3) assms(5,6), of a]
    obtain s2 where "positionActor a s1 = Inr s2" by blast
    with positionActor_frame(1) [OF this] f(1) show ?thesis by simp
  qed
  have "\<exists>s2. (if DidCrosshairPositionChange s1 \<or> DidCrosshairPropertyChange s
               then (case Actor s1 of None \<Rightarrow> Inr s1 | Some actor \<Rightarrow> positionActor actor s1)
               else Inr s1) = Inr s2 \<and> CrosshairNode s2 = Some n"
    using pos f(1) by (auto split: option.splits)
  then show ?thesis
    using s1 by (auto simp: crosshairNodeModified_def)
qed

lemma ProcessMRMLEvents_crosshair:
  "ProcessMRMLEvents (CrosshairNodeCaller c) ModifiedEvent s =
     (case crosshairNodeModified s of Inl e \<Rightarrow> Inl e | Inr s1 \<Rightarrow> Inr (RequestRender s1))"
  by (simp add: ProcessMRMLEvents_def split: option.splits)

lemma boundManager_processed:
  "ProcessMRMLEvents (CrosshairNodeCaller 3) ModifiedEvent boundManager = Inr shownManager"
  by (simp add: ProcessMRMLEvents_def crosshairNodeModified_def DidCrosshairPropertyChange_def
      DidCrosshairPositionChange_def BuildCrosshair_def positionActor_def RequestRender_def
      AddActor_def RemoveActor_def lineWidthOf_def crosshairGeometry_def AddCrosshairLine_def
      Invert_Identity MultiplyPoint_Identity Copy_def Let_def manager_defs)

lemma setUpdating_fields [simp]:
  "SliceCompositeNode (setUpdating b s) = SliceCompositeNode s"
  "CrosshairNode (setUpdating b s) = CrosshairNode s"
  "Actor (setUpdating b s) = Actor s"
  "CrosshairNodeCache (setUpdating b s) = CrosshairNodeCache s"
  "LightBoxRenderer (setUpdating b s) = LightBoxRenderer s"
  "LightBoxRendererManagerProxy (setUpdating b s) = LightBoxRendererManagerProxy s"
  "MRMLSliceNode (setUpdating b s) = MRMLSliceNode s"
  "InteractorScreenSize (setUpdating b s) = InteractorScreenSize s"
  "CompositeLayoutName (setUpdating b s) = CompositeLayoutName s"
  "CrosshairNodes (setUpdating b s) = CrosshairNodes s"
  "RendererProps (setUpdating b s) = RendererProps s"
  "NextActor (setUpdating b s) = NextActor s"
  "Calls (setUpdating b s) = Calls s"
  by (simp_all add: setUpdating_def)

lemma classifiers_setUpdating [simp]:
  "DidCrosshairPropertyChange (setUpdating b s) = DidCrosshairPropertyChange s"
  "DidCrosshairPositionChange (setUpdating b s) = DidCrosshairPositionChange s"
  by (simp_all add: DidCrosshairPropertyChange_def DidCrosshairPositionChange_def
      cong: option.case_cong)

lemma Find_setUpdating [simp]:
  "FindSliceCompositeNode (setUpdating b s) = FindSliceCompositeNode s"
  "FindCrosshairNode (setUpdating b s) = FindCrosshairNode s"
  "compositeIsStale (setUpdating b s) = compositeIsStale s"
  by (simp_all add: FindSliceCompositeNode_def FindCrosshairNode_def compositeIsStale_def
      setUpdating_def split: option.splits)

lemma Set_setUpdating:
  "SetSliceCompositeNode c (setUpdating b s) = setUpdating b (SetSliceCompositeNode c s)"
  "SetCrosshairNode n (setUpdating b s) = setUpdating b (SetCrosshairNode n s)"
  by (simp_all add: SetSliceCompositeNode_def SetCrosshairNode_def setUpdating_def Let_def
      split: option.splits)

lemma UpdateSliceNode_setUpdating:
  "UpdateSliceNode (setUpdating b s) = map_sum id (setUpdating b) (UpdateSliceNode s)"
  by (simp add: UpdateSliceNode_def Set_setUpdating split: sum.splits)



lemma RemoveActor_setUpdating:
  "RemoveActor r a (setUpdating b s) = setUpdating b (RemoveActor r a s)"
  by (simp add: RemoveActor_def setUpdating_def)

lemma AddActor_setUpdating:
  "AddActor r a (setUpdating b s) = setUpdating b (AddActor r a s)"
  by (simp add: AddActor_def setUpdating_def)

lemma BuildCrosshair_setUpdating:
  "BuildCrosshair (setUpdating b s) = map_sum id (setUpdating b) (BuildCrosshair s)"
proof (cases "CrosshairNode s")
  case None
  then show ?thesis by (simp add: BuildCrosshair_def)
next
  case (Some n)
  show ?thesis
  proof (cases "InteractorScreenSize s")
    case None
    with Some show ?thesis
      by (simp add: BuildCrosshair_def RemoveActor_def Let_def split: option.splits)
  next
    case sz: (Some screenSize)
    with Some show ?thesis
      by (cases "Actor s"; cases "LightBoxRenderer s")
         (simp_all add: BuildCrosshair_def RemoveActor_def AddActor_def setUpdating_def Let_def)
  qed
qed


lemma positionActor_setUpdating:
  "positionActor a (setUpdating b s) = map_sum id (setUpdating b) (positionActor a s)"
proof (cases "MRMLSliceNode s")
  case None
  then show ?thesis by (simp add: positionActor_def)
next
  case sn: (Some sn)
  show ?thesis
  proof (cases "CrosshairNode s")
    case None
    with sn show ?thesis by (simp add: positionActor_def)
  next
    case n: (Some n)
    obtain r0 r1 r2 where r: "CrosshairRAS (CrosshairNodes s n) = (r0, r1, r2)"
      by (metis prod_cases3)
    obtain p0 p1 p2 p3 where p: "MultiplyPoint (Invert (XYToRAS sn)) (r0, r1, r2, 1) = (p0, p1, p2, p3)"
      by (metis prod_cases4)
    show ?thesis
    proof (cases "p3 = 0")
      case True
      with sn n r p show ?thesis by (simp add: positionActor_def)
    next
      case False
      with sn n r p show ?thesis
        by (cases "LightBoxRendererManagerProxy s"; cases "LightBoxRenderer s")
           (auto simp: positionActor_def RemoveActor_def AddActor_def setUpdating_def Let_def
             split: option.splits)
    qed
  qed
qed


lemma cacheCopy_setUpdating:
  "(case CrosshairNode (setUpdating b s2) of
      None \<Rightarrow> Inl NullPointer
    | Some n \<Rightarrow>
        Inr (setUpdating b s2
              \<lparr>CrosshairNodeCache :=
                 Copy (CrosshairNodeCache (setUpdating b s2)) (CrosshairNodes (setUpdating b s2) n),
               Calls := Calls (setUpdating b s2) @ [CacheCopyCall]\<rparr>)) =
   map_sum id (setUpdating b)
     (case CrosshairNode s2 of
        None \<Rightarrow> Inl NullPointer
      | Some n \<Rightarrow>
          Inr (s2\<lparr>CrosshairNodeCache := Copy (CrosshairNodeCache s2) (CrosshairNodes s2 n),
                  Calls := Calls s2 @ [CacheCopyCall]\<rparr>))"
  by (cases "CrosshairNode s2") (simp_all add: setUpdating_def)

lemma crosshairNodeModified_unfold:
  "crosshairNodeModified s =
     (case (if DidCrosshairPropertyChange s then BuildCrosshair s else Inr s) of
        Inl e \<Rightarrow> Inl e
      | Inr s1 \<Rightarrow>
          (case (if DidCrosshairPositionChange s1 \<or> DidCrosshairPropertyChange s
                 then (case Actor s1 of None \<Rightarrow> Inr s1 | Some actor \<Rightarrow> positionActor actor s1)
                 else Inr s1) of
             Inl e \<Rightarrow> Inl e
           | Inr s2 \<Rightarrow>
               (case CrosshairNode s2 of
                  None \<Rightarrow> Inl NullPointer
                | Some n \<Rightarrow>
                    Inr (s2\<lparr>CrosshairNodeCache :=
                              Copy (CrosshairNodeCache s2) (CrosshairNodes s2 n),
                            Calls := Calls s2 @ [CacheCopyCall]\<rparr>))))"
  by (cases "DidCrosshairPropertyChange s"; cases "BuildCrosshair s")
     (simp_all add: crosshairNodeModified_def)

lemma crosshairNodeModified_setUpdating:
  "crosshairNodeModified (setUpdating b s) = map_sum id (setUpdating b) (crosshairNodeModified s)"
proof -
  define built where "built = DidCrosshairPropertyChange s"
  have tail: "(case (if DidCrosshairPositionChange (setUpdating b t) \<or> built
                 then (case Actor (setUpdating b t) of
                         None \<Rightarrow> Inr (setUpdating b t)
                       | Some actor \<Rightarrow> positionActor actor (setUpdating b t))
                 else Inr (setUpdating b t)) of
             Inl e \<Rightarrow> Inl e
           | Inr s2 \<Rightarrow>
               (case CrosshairNode s2 of
                  None \<Rightarrow> Inl NullPointer
                | Some n \<Rightarrow>
                    Inr (s2\<lparr>CrosshairNodeCache :=
                              Copy (CrosshairNodeCache s2) (CrosshairNodes s2 n),
                            Calls := Calls s2 @ [CacheCopyCall]\<rparr>))) =
      map_sum id (setUpdating b)
        (case (if DidCrosshairPositionChange t \<or> built
                 then (case Actor t of None \<Rightarrow> Inr t | Some actor \<Rightarrow> positionActor actor t)
                 else Inr t) of
             Inl e \<Rightarrow> Inl e
           | Inr s2 \<Rightarrow>
               (case CrosshairNode s2 of
                  None \<Rightarrow> Inl NullPointer
                | Some n \<Rightarrow>
                    Inr (s2\<lparr>CrosshairNodeCache :=
                              Copy (CrosshairNodeCache s2) (CrosshairNodes s2 n),
                            Calls := Calls s2 @ [CacheCopyCall]\<rparr>)))" for t
  proof (cases "DidCrosshairPositionChange t \<or> built")
    case False
    then show ?thesis using cacheCopy_setUpdating [of b t] by simp
  next
    case True
    show ?thesis
    proof (cases "Actor t")
      case None
      with True show ?thesis using cacheCopy_setUpdating [of b t] by simp
    next
      case (Some a)
      show ?thesis
      proof (cases "positionActor a t")
        case (Inl e)
        with True Some show ?thesis by (simp add: positionActor_setUpdating)
      next
        case (Inr s2)
        with True Some show ?thesis
          using cacheCopy_setUpdating [of b s2] by (simp add: positionActor_setUpdating)
      qed
    qed
  qed
  show ?thesis
  proof (cases "DidCrosshairPropertyChange s")
    case False
    then show ?thesis
      using tail [of s] by (simp add: crosshairNodeModified_unfold built_def)
  next
    case True
    show ?thesis
    proof (cases "BuildCrosshair s")
      case (Inl e)
      with True show ?thesis
        by (simp add: crosshairNodeModified_unfold BuildCrosshair_setUpdating)
    next
      case (Inr s1)
      with True show ?thesis
        using tail [of s1]
        by (simp add: crosshairNodeModified_unfold BuildCrosshair_setUpdating built_def)
    qed
  qed
qed

lemma RequestRender_setUpdating:
  "RequestRender (setUpdating b s) = setUpdating b (RequestRender s)"
  by (simp add: RequestRender_def setUpdating_def)

lemma ProcessMRMLEvents_unguarded:
  assumes "clr \<noteq> SceneCaller"
  shows "ProcessMRMLEvents clr ev s =
     (if ev = SceneImportedEvent \<or> ev = SceneRestoredEvent then UpdateSliceNode s
      else
        (case (if ev = ModifiedEvent \<and> (\<exists>c. clr = CrosshairNodeCaller c)
               then crosshairNodeModified s else Inr s) of
           Inl e \<Rightarrow> Inl e
         | Inr s1 \<Rightarrow> Inr (RequestRender s1)))"
  using assms by (cases clr) (simp_all add: ProcessMRMLEvents_def split: option.splits)

lemma ProcessMRMLEvents_setUpdating:
  assumes "clr \<noteq> SceneCaller"
  shows "ProcessMRMLEvents clr ev (setUpdating b s) =
         map_sum id (setUpdating b) (ProcessMRMLEvents clr ev s)"
  unfolding ProcessMRMLEvents_unguarded [OF assms]
  by (cases "crosshairNodeModified s")
     (auto simp: UpdateSliceNode_setUpdating crosshairNodeModified_setUpdating
       RequestRender_setUpdating)

text \<open>
  C3, as the code has it.  A notification raised by the scene itself while the scene is
  in a bulk update is dropped: for every event the handler returns the manager as it
  is, so nothing is rebuilt, nothing is placed, no binding changes and no render is
  requested.  A notification raised by any other object is processed as usual whatever
  the flag says: the handler does on the manager with the flag set to \<open>b\<close> what it does
  on the manager itself, and that is the rebinding for the two scene events and
  otherwise the work for a modified crosshair node, if it is one, followed by the
  render request.
\<close>

theorem scene_notification_ignored_while_updating:
  "(MRMLScene s = Some sc \<and> IsUpdating sc \<longrightarrow> ProcessMRMLEvents SceneCaller ev s = Inr s) \<and>
   (clr \<noteq> SceneCaller \<longrightarrow>
      ProcessMRMLEvents clr ev (setUpdating b s) =
        map_sum id (setUpdating b) (ProcessMRMLEvents clr ev s) \<and>
      ProcessMRMLEvents clr ev s =
        (if ev = SceneImportedEvent \<or> ev = SceneRestoredEvent then UpdateSliceNode s
         else
           (case (if ev = ModifiedEvent \<and> (\<exists>c. clr = CrosshairNodeCaller c)
                  then crosshairNodeModified s else Inr s) of
              Inl e \<Rightarrow> Inl e
            | Inr s1 \<Rightarrow> Inr (RequestRender s1))))"
proof (intro conjI impI)
  assume "MRMLScene s = Some sc \<and> IsUpdating sc"
  then show "ProcessMRMLEvents SceneCaller ev s = Inr s"
    by (simp add: ProcessMRMLEvents_def)
next
  assume "clr \<noteq> SceneCaller"
  then show "ProcessMRMLEvents clr ev (setUpdating b s) =
        map_sum id (setUpdating b) (ProcessMRMLEvents clr ev s)"
    by (rule ProcessMRMLEvents_setUpdating)
next
  assume "clr \<noteq> SceneCaller"
  then show "ProcessMRMLEvents clr ev s =
        (if ev = SceneImportedEvent \<or> ev = SceneRestoredEvent then UpdateSliceNode s
         else
           (case (if ev = ModifiedEvent \<and> (\<exists>c. clr = CrosshairNodeCaller c)
                  then crosshairNodeModified s else Inr s) of
              Inl e \<Rightarrow> Inl e
            | Inr s1 \<Rightarrow> Inr (RequestRender s1)))"
    by (rule ProcessMRMLEvents_unguarded)
qed

theorem scene_notification_ignored_while_updating_witness:
  "map_option IsUpdating (MRMLScene updatingManager) = Some True \<and>
   ProcessMRMLEvents SceneCaller ModifiedEvent updatingManager = Inr updatingManager \<and>
   ProcessMRMLEvents SceneCaller SceneImportedEvent updatingManager = Inr updatingManager \<and>
   updatingManager = setUpdating True boundManager \<and>
   ProcessMRMLEvents (CrosshairNodeCaller 3) ModifiedEvent updatingManager =
     Inr (setUpdating True shownManager) \<and>
   ProcessMRMLEvents OtherCaller ModifiedEvent updatingManager =
     Inr (RequestRender updatingManager)"
proof -
  have u: "updatingManager = setUpdating True boundManager"
    by (simp add: setUpdating_def manager_defs)
  have sc: "MRMLScene updatingManager = Some (redScene\<lparr>IsUpdating := True\<rparr>)"
    "IsUpdating (redScene\<lparr>IsUpdating := True\<rparr>)"
    by (simp_all add: manager_defs)
  have 1: "ProcessMRMLEvents SceneCaller ModifiedEvent updatingManager = Inr updatingManager"
    using scene_notification_ignored_while_updating
            [of updatingManager "redScene\<lparr>IsUpdating := True\<rparr>" ModifiedEvent] sc
    by simp
  have 2: "ProcessMRMLEvents SceneCaller SceneImportedEvent updatingManager = Inr updatingManager"
    using scene_notification_ignored_while_updating
            [of updatingManager "redScene\<lparr>IsUpdating := True\<rparr>" SceneImportedEvent] sc
    by simp
  have 3: "ProcessMRMLEvents (CrosshairNodeCaller 3) ModifiedEvent (setUpdating True boundManager) =
      Inr (setUpdating True shownManager)"
    using scene_notification_ignored_while_updating
            [of boundManager _ ModifiedEvent "CrosshairNodeCaller 3" True]
    by (simp add: boundManager_processed)
  have 4: "ProcessMRMLEvents OtherCaller ModifiedEvent updatingManager =
      Inr (RequestRender updatingManager)"
    using scene_notification_ignored_while_updating
            [of updatingManager _ ModifiedEvent OtherCaller]
    by simp
  from 1 2 3 4 sc show ?thesis
    unfolding u [symmetric] by (simp add: u [symmetric])
qed

text \<open>
  C3 as stated fails for a notification raised by a crosshair node: the guard tests
  the bulk-update flag only when the caller is the scene.  In \<open>updatingManager\<close> the flag
  is set, there is no glyph and no call has been made; the notification of crosshair
  node 3 builds the glyph, places it, queries the proxy and requests a render.
\<close>

theorem node_notification_processed_while_updating_counterexample:
  "map_option IsUpdating (MRMLScene updatingManager) = Some True \<and>
   Actor updatingManager = None \<and> Calls updatingManager = [] \<and>
   map_sum id (map_option ActorId \<circ> Actor)
     (ProcessMRMLEvents (CrosshairNodeCaller 3) ModifiedEvent updatingManager) = Inr (Some 0) \<and>
   map_sum id Calls (ProcessMRMLEvents (CrosshairNodeCaller 3) ModifiedEvent updatingManager) =
     Inr [SetPositionCall 10 20, GetRendererCall 30, AddActorCall 1 0,
          CacheCopyCall, RequestRenderCall]"
  by (simp add: ProcessMRMLEvents_def crosshairNodeModified_def DidCrosshairPropertyChange_def
      DidCrosshairPositionChange_def BuildCrosshair_def positionActor_def RequestRender_def
      AddActor_def RemoveActor_def lineWidthOf_def crosshairGeometry_def AddCrosshairLine_def
      Invert_Identity MultiplyPoint_Identity Copy_def Let_def manager_defs)

text \<open>
  C5.  A crosshair node is bound, at RAS \<open>(r0, r1, r2)\<close>; the inverse of the slice node's
  XY-to-RAS matrix applied to \<open>(r0, r1, r2, 1)\<close> is \<open>(p0, p1, p2, p3)\<close> with \<open>p3\<close> not
  zero; and the notification of a crosshair node leads to a position update (the
  properties changed and there is an interactor to build the glyph, or only the position
  changed and a glyph exists).  Then the handler returns, the glyph's position is
  \<open>(p0 / p3, p1 / p3)\<close>, \<^verbatim>\<open>SetPosition\<close> was called with it, and with a lightbox proxy
  the next call is \<^verbatim>\<open>GetRenderer(p2 / p3)\<close>.  With the identity matrix and RAS
  (10, 20, 30) the position is (10, 20) and the proxy is asked for depth 30.
\<close>

theorem pose_from_inverse_mapping:
  assumes "CrosshairNode s = Some n"
    and "CrosshairRAS (CrosshairNodes s n) = (r0, r1, r2)"
    and "MRMLSliceNode s = Some sn"
    and "MultiplyPoint (Invert (XYToRAS sn)) (r0, r1, r2, 1) = (p0, p1, p2, p3)"
    and "p3 \<noteq> 0"
    and "DidCrosshairPropertyChange s \<and> InteractorScreenSize s \<noteq> None \<or>
         \<not> DidCrosshairPropertyChange s \<and> DidCrosshairPositionChange s \<and> Actor s \<noteq> None"
  shows "\<exists>s' a pre post.
           ProcessMRMLEvents (CrosshairNodeCaller c) ModifiedEvent s = Inr s' \<and>
           Actor s' = Some a \<and> Position a = Some (p0 / p3, p1 / p3) \<and>
           Calls s' = Calls s @ pre @ SetPositionCall (p0 / p3) (p1 / p3) # post \<and>
           (LightBoxRendererManagerProxy s \<noteq> None \<longrightarrow>
              (\<exists>more. post = GetRendererCall (p2 / p3) # more)) \<and>
           (XYToRAS sn = Identity \<and> r0 = 10 \<and> r1 = 20 \<and> r2 = 30 \<longrightarrow>
              Position a = Some (10, 20) \<and>
              (LightBoxRendererManagerProxy s \<noteq> None \<longrightarrow>
                 (\<exists>more. post = GetRendererCall 30 # more)))"
proof -
  obtain s1 a0 where b: "if DidCrosshairPropertyChange s then BuildCrosshair s = Inr s1 else s1 = s"
    and a0: "Actor s1 = Some a0"
    and go: "DidCrosshairPositionChange s1 \<or> DidCrosshairPropertyChange s"
  proof (cases "DidCrosshairPropertyChange s")
    case True
    with assms(6) obtain sz where "InteractorScreenSize s = Some sz" by auto
    from BuildCrosshair_bound [OF assms(1) this] True that show thesis by auto
  next
    case False
    with assms(6) that [of s] show thesis by auto
  qed
  from b have f: "CrosshairNode s1 = Some n" "MRMLSliceNode s1 = Some sn"
    "CrosshairRAS (CrosshairNodes s1 n) = (r0, r1, r2)"
    "LightBoxRendererManagerProxy s1 = LightBoxRendererManagerProxy s"
    using BuildCrosshair_frame [of s s1] assms by (auto split: if_splits)
  from b obtain pre where pre: "Calls s1 = Calls s @ pre"
    using BuildCrosshair_frame(8) [of s s1] by (auto split: if_splits)
  from positionActor_result [OF f(2) f(1) f(3) assms(4,5), of a0]
  obtain s2 rest where s2: "positionActor a0 s1 = Inr s2"
    and a: "Actor s2 = Some (a0\<lparr>Position := Some (p0 / p3, p1 / p3)\<rparr>)"
    and c: "Calls s2 = Calls s1 @ SetPositionCall (p0 / p3) (p1 / p3) # rest"
    and q: "LightBoxRendererManagerProxy s1 \<noteq> None \<longrightarrow>
              (\<exists>more. rest = GetRendererCall (p2 / p3) # more)"
    by blast
  have n2: "CrosshairNode s2 = Some n"
    using positionActor_frame(1) [OF s2] f(1) by simp
  have "crosshairNodeModified s =
      Inr (s2\<lparr>CrosshairNodeCache := Copy (CrosshairNodeCache s2) (CrosshairNodes s2 n),
              Calls := Calls s2 @ [CacheCopyCall]\<rparr>)"
    using b go a0 s2 n2 by (intro crosshairNodeModified_forward [of s s1]) auto
  then have r: "ProcessMRMLEvents (CrosshairNodeCaller c) ModifiedEvent s =
      Inr (RequestRender
            (s2\<lparr>CrosshairNodeCache := Copy (CrosshairNodeCache s2) (CrosshairNodes s2 n),
              Calls := Calls s2 @ [CacheCopyCall]\<rparr>))"
    by (simp add: ProcessMRMLEvents_crosshair)
  have scenario: "p0 / p3 = 10 \<and> p1 / p3 = 20 \<and> p2 / p3 = 30"
    if "XYToRAS sn = Identity \<and> r0 = 10 \<and> r1 = 20 \<and> r2 = 30"
    using that assms(4) by (simp add: Invert_Identity MultiplyPoint_Identity)
  show ?thesis
    using r a c q f(4) pre scenario
    by (intro exI [of _ "RequestRender
            (s2\<lparr>CrosshairNodeCache := Copy (CrosshairNodeCache s2) (CrosshairNodes s2 n),
              Calls := Calls s2 @ [CacheCopyCall]\<rparr>)"]
          exI [of _ "a0\<lparr>Position := Some (p0 / p3, p1 / p3)\<rparr>"] exI [of _ pre]
          exI [of _ "rest @ [CacheCopyCall, RequestRenderCall]"])
       (auto simp: RequestRender_def)
qed

theorem pose_from_inverse_mapping_witness:
  "CrosshairNode boundManager = Some 3 \<and>
   CrosshairRAS (CrosshairNodes boundManager 3) = (10, 20, 30) \<and>
   map_option XYToRAS (MRMLSliceNode boundManager) = Some Identity \<and>
   MultiplyPoint (Invert Identity) (10, 20, 30, 1) = (10, 20, 30, 1) \<and>
   DidCrosshairPropertyChange boundManager \<and> InteractorScreenSize boundManager \<noteq> None \<and>
   map_sum id (map_option Position \<circ> Actor)
     (ProcessMRMLEvents (CrosshairNodeCaller 3) ModifiedEvent boundManager) =
     Inr (Some (Some (10, 20))) \<and>
   map_sum id Calls (ProcessMRMLEvents (CrosshairNodeCaller 3) ModifiedEvent boundManager) =
     Inr [SetPositionCall 10 20, GetRendererCall 30, AddActorCall 1 0,
          CacheCopyCall, RequestRenderCall]"
proof -
  have h: "CrosshairNode boundManager = Some 3"
    "CrosshairRAS (CrosshairNodes boundManager 3) = (10, 20, 30)"
    "MRMLSliceNode boundManager = Some \<lparr>LayoutName = Some ''Red'', XYToRAS = Identity\<rparr>"
    "MultiplyPoint (Invert (XYToRAS \<lparr>LayoutName = Some ''Red'', XYToRAS = Identity\<rparr>))
       (10, 20, 30, 1) = (10, 20, 30, 1)"
    "(1::real) \<noteq> 0"
    by (simp_all add: manager_defs Invert_Identity MultiplyPoint_Identity)
  have d: "DidCrosshairPropertyChange boundManager" "InteractorScreenSize boundManager \<noteq> None"
    by (simp_all add: manager_defs DidCrosshairPropertyChange_def)
  then have h6: "DidCrosshairPropertyChange boundManager \<and> InteractorScreenSize boundManager \<noteq> None \<or>
     \<not> DidCrosshairPropertyChange boundManager \<and> DidCrosshairPositionChange boundManager \<and>
       Actor boundManager \<noteq> None"
    by simp
  from pose_from_inverse_mapping [OF h h6, of 3]
  obtain s' a where "ProcessMRMLEvents (CrosshairNodeCaller 3) ModifiedEvent boundManager = Inr s'"
    and "Actor s' = Some a" and "Position a = Some (10 / 1, 20 / 1)"
    by blast
  then have "map_sum id (map_option Position \<circ> Actor)
     (ProcessMRMLEvents (CrosshairNodeCaller 3) ModifiedEvent boundManager) =
     Inr (Some (Some (10, 20)))"
    by simp
  moreover have "Calls shownManager =
      [SetPositionCall 10 20, GetRendererCall 30, AddActorCall 1 0,
       CacheCopyCall, RequestRenderCall]"
    by (simp add: shownManager_def)
  ultimately show ?thesis
    using h d by (simp add: boundManager_processed Invert_Identity MultiplyPoint_Identity)
qed

lemma DidCrosshairPositionChange_cong:
  "CrosshairNode s1 = CrosshairNode s \<Longrightarrow> CrosshairNodes s1 = CrosshairNodes s \<Longrightarrow>
   CrosshairNodeCache s1 = CrosshairNodeCache s \<Longrightarrow>
   DidCrosshairPositionChange s1 = DidCrosshairPositionChange s"
  by (simp add: DidCrosshairPositionChange_def cong: option.case_cong)

lemma positionActor_Inr:
  assumes "positionActor a s = Inr s2"
  shows "\<exists>x y more. Actor s2 = Some (a\<lparr>Position := Some (x, y)\<rparr>) \<and>
           Calls s2 = Calls s @ SetPositionCall x y # more \<and> NextActor s2 = NextActor s"
  using assms
  by (auto simp: positionActor_def Let_def RemoveActor_def AddActor_def
      split: option.splits prod.splits if_splits)

lemma BuildCrosshair_Inr_bound:
  assumes "BuildCrosshair s = Inr s1" and "CrosshairNode s = Some n"
  shows "\<exists>a. Actor s1 = Some a \<and> ActorId a = NextActor s \<and> NextActor s1 = Suc (NextActor s)"
  using assms
  by (auto simp: BuildCrosshair_def Let_def RemoveActor_def AddActor_def split: option.splits)

lemma crosshairNodeModified_detail:
  assumes "crosshairNodeModified s = Inr t"
  shows "\<exists>m work s1 s2.
      CrosshairNode s = Some m \<and>
      (if DidCrosshairPropertyChange s then BuildCrosshair s = Inr s1 else s1 = s) \<and>
      (if DidCrosshairPositionChange s \<or> DidCrosshairPropertyChange s
       then (case Actor s1 of None \<Rightarrow> s2 = s1 | Some a \<Rightarrow> positionActor a s1 = Inr s2)
       else s2 = s1) \<and>
      CrosshairNodeCache s2 = CrosshairNodeCache s \<and> CrosshairNodes s2 = CrosshairNodes s \<and>
      CrosshairNode s2 = Some m \<and>
      Calls s2 = Calls s @ work \<and> CacheCopyCall \<notin> set work \<and>
      t = s2\<lparr>CrosshairNodeCache := Copy (CrosshairNodeCache s) (CrosshairNodes s m),
             Calls := Calls s2 @ [CacheCopyCall]\<rparr>"
proof -
  from assms obtain s1 s2 n where
    b: "if DidCrosshairPropertyChange s then BuildCrosshair s = Inr s1 else s1 = s"
    and p: "if DidCrosshairPositionChange s1 \<or> DidCrosshairPropertyChange s
         then (case Actor s1 of None \<Rightarrow> s2 = s1 | Some a \<Rightarrow> positionActor a s1 = Inr s2)
         else s2 = s1"
    and n: "CrosshairNode s2 = Some n"
    and t: "t = s2\<lparr>CrosshairNodeCache := Copy (CrosshairNodeCache s2) (CrosshairNodes s2 n),
              Calls := Calls s2 @ [CacheCopyCall]\<rparr>"
    by (rule crosshairNodeModified_stages)
  from b have b': "CrosshairNode s1 = CrosshairNode s" "CrosshairNodes s1 = CrosshairNodes s"
      "CrosshairNodeCache s1 = CrosshairNodeCache s"
      "\<exists>w1. Calls s1 = Calls s @ w1 \<and> CacheCopyCall \<notin> set w1 \<and> RequestRenderCall \<notin> set w1"
    using BuildCrosshair_frame [of s s1] by (auto split: if_splits)
  then have d: "DidCrosshairPositionChange s1 = DidCrosshairPositionChange s"
    by (intro DidCrosshairPositionChange_cong)
  from p have "s2 = s1 \<or> (\<exists>a. positionActor a s1 = Inr s2)"
    by (auto split: if_splits option.splits)
  then have p': "CrosshairNode s2 = CrosshairNode s1" "CrosshairNodes s2 = CrosshairNodes s1"
      "CrosshairNodeCache s2 = CrosshairNodeCache s1"
      "\<exists>w2. Calls s2 = Calls s1 @ w2 \<and> CacheCopyCall \<notin> set w2 \<and> RequestRenderCall \<notin> set w2"
    using positionActor_frame [of _ s1 s2] by auto
  from b'(4) p'(4) obtain w1 w2 where
    w: "Calls s2 = Calls s @ (w1 @ w2)" "CacheCopyCall \<notin> set (w1 @ w2)"
    by auto
  show ?thesis
    using b p n t b' p' w unfolding d
    by (intro exI [of _ n] exI [of _ "w1 @ w2"] exI [of _ s1] exI [of _ s2]) simp
qed



text \<open>
  C6.  A notification of a crosshair node that the handler processes to its end (it
  does so whenever a crosshair node and a slice node are bound, there is an interactor
  and the mapped position has a nonzero fourth coordinate) runs in this order: the
  glyph is rebuilt if the properties differ from the cache as it was before the
  notification; the glyph, if there is one, is placed if the position differs from
  that same cache or the glyph was rebuilt; the cache is left as it was all the while;
  then the bound node is copied into the cache, exactly once, as the last call before
  the render request.  So a property change leaves a newly allocated, placed glyph, a
  mere position change leaves the old glyph placed anew, and no change leaves no call
  before the copy.  The cache then has the position, the mode and the thickness of the
  bound node, all three together, and neither classifier reports a change any more.
\<close>

theorem cache_refreshed_once_after_work:
  "(CrosshairNode s = Some n \<and> MRMLSliceNode s = Some sn \<and> InteractorScreenSize s = Some sz \<and>
    CrosshairRAS (CrosshairNodes s n) = (r0, r1, r2) \<and>
    MultiplyPoint (Invert (XYToRAS sn)) (r0, r1, r2, 1) = (p0, p1, p2, p3) \<and> p3 \<noteq> 0 \<longrightarrow>
      (\<exists>t. ProcessMRMLEvents (CrosshairNodeCaller c) ModifiedEvent s = Inr t)) \<and>
   (ProcessMRMLEvents (CrosshairNodeCaller c) ModifiedEvent s = Inr s' \<longrightarrow>
      (\<exists>m work s1 s2. CrosshairNode s = Some m \<and> CrosshairNode s' = Some m \<and>
          CrosshairNodes s' = CrosshairNodes s \<and>
          (if DidCrosshairPropertyChange s then BuildCrosshair s = Inr s1 else s1 = s) \<and>
          (if DidCrosshairPositionChange s \<or> DidCrosshairPropertyChange s
           then (case Actor s1 of None \<Rightarrow> s2 = s1 | Some a \<Rightarrow> positionActor a s1 = Inr s2)
           else s2 = s1) \<and>
          CrosshairNodeCache s2 = CrosshairNodeCache s \<and>
          Calls s2 = Calls s @ work \<and>
          s' = RequestRender
                 (s2\<lparr>CrosshairNodeCache := Copy (CrosshairNodeCache s) (CrosshairNodes s m),
                     Calls := Calls s2 @ [CacheCopyCall]\<rparr>) \<and>
          (DidCrosshairPropertyChange s \<longrightarrow>
             (\<exists>a. Actor s' = Some a \<and> ActorId a = NextActor s \<and> Position a \<noteq> None) \<and>
             NextActor s' = Suc (NextActor s)) \<and>
          (DidCrosshairPositionChange s \<and> \<not> DidCrosshairPropertyChange s \<and> Actor s \<noteq> None \<longrightarrow>
             (\<exists>a x y. Actor s' = Some a \<and> map_option ActorId (Actor s) = Some (ActorId a) \<and>
                 Position a = Some (x, y) \<and> SetPositionCall x y \<in> set work)) \<and>
          (\<not> DidCrosshairPositionChange s \<and> \<not> DidCrosshairPropertyChange s \<longrightarrow>
             work = [] \<and> Actor s' = Actor s) \<and>
          CrosshairNodeCache s' = Copy (CrosshairNodeCache s) (CrosshairNodes s m) \<and>
          CrosshairRAS (CrosshairNodeCache s') = CrosshairRAS (CrosshairNodes s m) \<and>
          CrosshairMode (CrosshairNodeCache s') = CrosshairMode (CrosshairNodes s m) \<and>
          CrosshairThickness (CrosshairNodeCache s') = CrosshairThickness (CrosshairNodes s m) \<and>
          Calls s' = Calls s @ work @ [CacheCopyCall, RequestRenderCall] \<and>
          CacheCopyCall \<notin> set work \<and>
          \<not> DidCrosshairPropertyChange s' \<and> \<not> DidCrosshairPositionChange s'))"
proof (intro conjI impI)
  assume "CrosshairNode s = Some n \<and> MRMLSliceNode s = Some sn \<and> InteractorScreenSize s = Some sz \<and>
    CrosshairRAS (CrosshairNodes s n) = (r0, r1, r2) \<and>
    MultiplyPoint (Invert (XYToRAS sn)) (r0, r1, r2, 1) = (p0, p1, p2, p3) \<and> p3 \<noteq> 0"
  then have "\<exists>t. crosshairNodeModified s = Inr t"
    using crosshairNodeModified_total [of s n sn sz r0 r1 r2 p0 p1 p2 p3] by simp
  then show "\<exists>t. ProcessMRMLEvents (CrosshairNodeCaller c) ModifiedEvent s = Inr t"
    by (auto simp: ProcessMRMLEvents_crosshair)
next
  assume "ProcessMRMLEvents (CrosshairNodeCaller c) ModifiedEvent s = Inr s'"
  then obtain t where t: "crosshairNodeModified s = Inr t" and s': "s' = RequestRender t"
    by (auto simp: ProcessMRMLEvents_crosshair split: sum.splits)
  from crosshairNodeModified_detail [OF t] obtain m work s1 s2 where
    m: "CrosshairNode s = Some m"
    and b: "if DidCrosshairPropertyChange s then BuildCrosshair s = Inr s1 else s1 = s"
    and p: "if DidCrosshairPositionChange s \<or> DidCrosshairPropertyChange s
       then (case Actor s1 of None \<Rightarrow> s2 = s1 | Some a \<Rightarrow> positionActor a s1 = Inr s2)
       else s2 = s1"
    and f: "CrosshairNodeCache s2 = CrosshairNodeCache s" "CrosshairNodes s2 = CrosshairNodes s"
      "CrosshairNode s2 = Some m"
    and w: "Calls s2 = Calls s @ work" "CacheCopyCall \<notin> set work"
    and td: "t = s2\<lparr>CrosshairNodeCache := Copy (CrosshairNodeCache s) (CrosshairNodes s m),
             Calls := Calls s2 @ [CacheCopyCall]\<rparr>"
    by blast
  have a': "Actor s' = Actor s2" "NextActor s' = NextActor s2"
    using s' td by (simp_all add: RequestRender_def)
  have built: "(\<exists>a. Actor s' = Some a \<and> ActorId a = NextActor s \<and> Position a \<noteq> None) \<and>
      NextActor s' = Suc (NextActor s)" if "DidCrosshairPropertyChange s"
  proof -
    from that b have b1: "BuildCrosshair s = Inr s1" by simp
    from BuildCrosshair_Inr_bound [OF b1 m] obtain a1 where
      a1: "Actor s1 = Some a1" "ActorId a1 = NextActor s" "NextActor s1 = Suc (NextActor s)"
      by blast
    with that p have "positionActor a1 s1 = Inr s2" by simp
    from positionActor_Inr [OF this] a1 a' show ?thesis by auto
  qed
  have placed: "\<exists>a x y. Actor s' = Some a \<and> map_option ActorId (Actor s) = Some (ActorId a) \<and>
      Position a = Some (x, y) \<and> SetPositionCall x y \<in> set work"
    if "DidCrosshairPositionChange s \<and> \<not> DidCrosshairPropertyChange s \<and> Actor s \<noteq> None"
  proof -
    from that b have s1: "s1 = s" by simp
    from that obtain a0 where a0: "Actor s = Some a0" by auto
    with that p s1 have "positionActor a0 s = Inr s2" by simp
    from positionActor_Inr [OF this] obtain x y more where
      "Actor s2 = Some (a0\<lparr>Position := Some (x, y)\<rparr>)"
      "Calls s2 = Calls s @ SetPositionCall x y # more"
      by blast
    with w(1) a0 a' show ?thesis by auto
  qed
  have idle: "work = [] \<and> Actor s' = Actor s"
    if "\<not> DidCrosshairPositionChange s \<and> \<not> DidCrosshairPropertyChange s"
    using that b p w(1) a' by simp
  have c': "CrosshairNode s' = Some m"
    "CrosshairNodeCache s' = Copy (CrosshairNodeCache s) (CrosshairNodes s' m)"
    using f td s' by (simp_all add: RequestRender_def)
  then have quiet: "\<not> DidCrosshairPropertyChange s' \<and> \<not> DidCrosshairPositionChange s'"
    by (rule classifier_synchronized)
  have rest: "CrosshairNodes s' = CrosshairNodes s"
    "s' = RequestRender
            (s2\<lparr>CrosshairNodeCache := Copy (CrosshairNodeCache s) (CrosshairNodes s m),
                Calls := Calls s2 @ [CacheCopyCall]\<rparr>)"
    "CrosshairNodeCache s' = Copy (CrosshairNodeCache s) (CrosshairNodes s m)"
    "Calls s' = Calls s @ work @ [CacheCopyCall, RequestRenderCall]"
    using f td s' w by (simp_all add: RequestRender_def)
  show "\<exists>m work s1 s2. CrosshairNode s = Some m \<and> CrosshairNode s' = Some m \<and>
          CrosshairNodes s' = CrosshairNodes s \<and>
          (if DidCrosshairPropertyChange s then BuildCrosshair s = Inr s1 else s1 = s) \<and>
          (if DidCrosshairPositionChange s \<or> DidCrosshairPropertyChange s
           then (case Actor s1 of None \<Rightarrow> s2 = s1 | Some a \<Rightarrow> positionActor a s1 = Inr s2)
           else s2 = s1) \<and>
          CrosshairNodeCache s2 = CrosshairNodeCache s \<and>
          Calls s2 = Calls s @ work \<and>
          s' = RequestRender
                 (s2\<lparr>CrosshairNodeCache := Copy (CrosshairNodeCache s) (CrosshairNodes s m),
                     Calls := Calls s2 @ [CacheCopyCall]\<rparr>) \<and>
          (DidCrosshairPropertyChange s \<longrightarrow>
             (\<exists>a. Actor s' = Some a \<and> ActorId a = NextActor s \<and> Position a \<noteq> None) \<and>
             NextActor s' = Suc (NextActor s)) \<and>
          (DidCrosshairPositionChange s \<and> \<not> DidCrosshairPropertyChange s \<and> Actor s \<noteq> None \<longrightarrow>
             (\<exists>a x y. Actor s' = Some a \<and> map_option ActorId (Actor s) = Some (ActorId a) \<and>
                 Position a = Some (x, y) \<and> SetPositionCall x y \<in> set work)) \<and>
          (\<not> DidCrosshairPositionChange s \<and> \<not> DidCrosshairPropertyChange s \<longrightarrow>
             work = [] \<and> Actor s' = Actor s) \<and>
          CrosshairNodeCache s' = Copy (CrosshairNodeCache s) (CrosshairNodes s m) \<and>
          CrosshairRAS (CrosshairNodeCache s') = CrosshairRAS (CrosshairNodes s m) \<and>
          CrosshairMode (CrosshairNodeCache s') = CrosshairMode (CrosshairNodes s m) \<and>
          CrosshairThickness (CrosshairNodeCache s') = CrosshairThickness (CrosshairNodes s m) \<and>
          Calls s' = Calls s @ work @ [CacheCopyCall, RequestRenderCall] \<and>
          CacheCopyCall \<notin> set work \<and>
          \<not> DidCrosshairPropertyChange s' \<and> \<not> DidCrosshairPositionChange s'"
  proof (rule exI [of _ m], rule exI [of _ work], rule exI [of _ s1], rule exI [of _ s2],
      intro conjI)
    show "CrosshairRAS (CrosshairNodeCache s') = CrosshairRAS (CrosshairNodes s m)"
      "CrosshairMode (CrosshairNodeCache s') = CrosshairMode (CrosshairNodes s m)"
      "CrosshairThickness (CrosshairNodeCache s') = CrosshairThickness (CrosshairNodes s m)"
      using rest(3) by (simp_all add: Copy_def)
  qed (use m c' b p f w rest built placed idle quiet in blast)+
qed

theorem cache_refreshed_once_after_work_witness:
  "CrosshairNode boundManager = Some 3 \<and>
   map_option XYToRAS (MRMLSliceNode boundManager) = Some Identity \<and>
   InteractorScreenSize boundManager = Some (800, 600) \<and>
   CrosshairRAS (CrosshairNodes boundManager 3) = (10, 20, 30) \<and>
   MultiplyPoint (Invert Identity) (10, 20, 30, 1) = (10, 20, 30, 1) \<and>
   ProcessMRMLEvents (CrosshairNodeCaller 3) ModifiedEvent boundManager = Inr shownManager \<and>
   DidCrosshairPropertyChange boundManager \<and>
   Actor boundManager = None \<and> NextActor boundManager = 0 \<and>
   map_option ActorId (Actor shownManager) = Some 0 \<and>
   map_option Position (Actor shownManager) = Some (Some (10, 20)) \<and>
   CrosshairNodeCache boundManager = newNode \<and>
   CrosshairNodeCache shownManager = Copy newNode defaultNode \<and>
   Calls shownManager =
     Calls boundManager @ [SetPositionCall 10 20, GetRendererCall 30, AddActorCall 1 0]
       @ [CacheCopyCall, RequestRenderCall] \<and>
   \<not> DidCrosshairPropertyChange shownManager \<and> \<not> DidCrosshairPositionChange shownManager"
proof -
  have h: "CrosshairNode boundManager = Some 3"
    "MRMLSliceNode boundManager = Some \<lparr>LayoutName = Some ''Red'', XYToRAS = Identity\<rparr>"
    "InteractorScreenSize boundManager = Some (800, 600)"
    "CrosshairRAS (CrosshairNodes boundManager 3) = (10, 20, 30)"
    "MultiplyPoint (Invert (XYToRAS \<lparr>LayoutName = Some ''Red'', XYToRAS = Identity\<rparr>))
       (10, 20, 30, 1) = (10, 20, 30, 1)"
    by (simp_all add: manager_defs Invert_Identity MultiplyPoint_Identity)
  have d: "DidCrosshairPropertyChange boundManager"
    by (simp add: DidCrosshairPropertyChange_def manager_defs)
  note w = cache_refreshed_once_after_work
             [of boundManager 3 "\<lparr>LayoutName = Some ''Red'', XYToRAS = Identity\<rparr>" "(800, 600)"
                 10 20 30 10 20 30 1 3 shownManager]
  from w h have "\<exists>t. ProcessMRMLEvents (CrosshairNodeCaller 3) ModifiedEvent boundManager = Inr t"
    by simp
  moreover from w boundManager_processed
  have "\<not> DidCrosshairPropertyChange shownManager \<and> \<not> DidCrosshairPositionChange shownManager"
    by blast
  moreover from w boundManager_processed d
  have "\<exists>a. Actor shownManager = Some a \<and> ActorId a = NextActor boundManager"
    by blast
  ultimately show ?thesis
    using h d by (simp add: boundManager_processed Invert_Identity MultiplyPoint_Identity)
      (simp add: manager_defs Copy_def)
qed

subsection \<open>Rebinding\<close>

lemma scanSliceComposite_Inr:
  "scanSliceComposite names sliceName refs = Inr r \<Longrightarrow>
   \<exists>b l. r = Some b \<and> sliceName = Some l \<and> names b = Some l"
  by (induction names sliceName refs rule: scanSliceComposite.induct)
     (auto split: option.splits if_splits)

lemma SetSliceCompositeNode_fields [simp]:
  "SliceCompositeNode (SetSliceCompositeNode c s) = c"
  "CrosshairNode (SetSliceCompositeNode c s) = CrosshairNode s"
  "MRMLScene (SetSliceCompositeNode c s) = MRMLScene s"
  "MRMLSliceNode (SetSliceCompositeNode c s) = MRMLSliceNode s"
  "CompositeLayoutName (SetSliceCompositeNode c s) = CompositeLayoutName s"
  "CrosshairNodes (SetSliceCompositeNode c s) = CrosshairNodes s"
  "CrosshairObservers (SetSliceCompositeNode c s) = CrosshairObservers s"
  by (simp_all add: SetSliceCompositeNode_def Let_def split: option.splits)

lemma SetCrosshairNode_fields [simp]:
  "CrosshairNode (SetCrosshairNode n s) = n"
  "SliceCompositeNode (SetCrosshairNode n s) = SliceCompositeNode s"
  "MRMLScene (SetCrosshairNode n s) = MRMLScene s"
  "MRMLSliceNode (SetCrosshairNode n s) = MRMLSliceNode s"
  "CompositeLayoutName (SetCrosshairNode n s) = CompositeLayoutName s"
  "CrosshairNodes (SetCrosshairNode n s) = CrosshairNodes s"
  "CompositeObservers (SetCrosshairNode n s) = CompositeObservers s"
  by (simp_all add: SetCrosshairNode_def Let_def split: option.splits)

lemma SetSliceCompositeNode_same [simp]: "SliceCompositeNode s = c \<Longrightarrow> SetSliceCompositeNode c s = s"
  by (simp add: SetSliceCompositeNode_def)

lemma SetCrosshairNode_same [simp]: "CrosshairNode s = n \<Longrightarrow> SetCrosshairNode n s = s"
  by (simp add: SetCrosshairNode_def)

lemma Find_cong:
  "MRMLScene s' = MRMLScene s \<Longrightarrow> MRMLSliceNode s' = MRMLSliceNode s \<Longrightarrow>
   CompositeLayoutName s' = CompositeLayoutName s \<Longrightarrow>
   FindSliceCompositeNode s' = FindSliceCompositeNode s"
  "MRMLScene s' = MRMLScene s \<Longrightarrow> CrosshairNodes s' = CrosshairNodes s \<Longrightarrow>
   FindCrosshairNode s' = FindCrosshairNode s"
  by (simp_all add: FindSliceCompositeNode_def FindCrosshairNode_def split: option.splits)

lemma FindSliceCompositeNode_Some:
  "FindSliceCompositeNode s = Inr (Some b) \<Longrightarrow>
   \<exists>sn l. MRMLSliceNode s = Some sn \<and> LayoutName sn = Some l \<and> CompositeLayoutName s b = Some l"
  by (auto simp: FindSliceCompositeNode_def split: option.splits dest!: scanSliceComposite_Inr)

text \<open>
  After \<^verbatim>\<open>UpdateSliceNode\<close> returned, the bound composite node is either the one found
  by the search, whose layout name is the slice node's, or the one that was not stale to
  begin with; so the second call either skips the search or finds the same node.
\<close>

lemma update_again:
  assumes "UpdateSliceNode s = Inr s1"
  shows "UpdateSliceNode s1 = Inr s1"
proof -
  from assms obtain stale s0 n where
    ok: "\<not> (case MRMLSliceNode s of None \<Rightarrow> False | Some sn \<Rightarrow> LayoutName sn = None)"
    and st: "compositeIsStale s = Inr stale"
    and s0: "if stale then (\<exists>c. FindSliceCompositeNode s = Inr c \<and> s0 = SetSliceCompositeNode c s) else s0 = s"
    and n: "FindCrosshairNode s0 = Inr n" and s1: "s1 = SetCrosshairNode n s0"
    by (auto simp: UpdateSliceNode_def split: sum.splits if_splits)
  have same: "MRMLScene s0 = MRMLScene s" "MRMLSliceNode s0 = MRMLSliceNode s"
    "CompositeLayoutName s0 = CompositeLayoutName s" "CrosshairNodes s0 = CrosshairNodes s"
    using s0 by (auto split: if_splits)
  have fresh: "compositeIsStale s0 = Inr False \<or>
    (compositeIsStale s0 = Inr True \<and> FindSliceCompositeNode s0 = Inr (SliceCompositeNode s0))"
  proof (cases stale)
    case False
    then show ?thesis using s0 st by simp
  next
    case True
    then obtain c where c: "FindSliceCompositeNode s = Inr c" "s0 = SetSliceCompositeNode c s"
      using s0 by auto
    show ?thesis
    proof (cases c)
      case None
      then show ?thesis using c same
        using Find_cong(1) [of s0 s] by (auto simp: compositeIsStale_def)
    next
      case (Some b)
      with c FindSliceCompositeNode_Some [of s b] show ?thesis
        by (auto simp: compositeIsStale_def)
    qed
  qed
  have 1: "compositeIsStale s1 = compositeIsStale s0"
    using s1 by (simp add: compositeIsStale_def cong: option.case_cong)
  have 2: "FindSliceCompositeNode s1 = FindSliceCompositeNode s0"
    "FindCrosshairNode s1 = FindCrosshairNode s0" 
    using s1 Find_cong(1) [of s1 s0] Find_cong(2) [of s1 s0] by simp_all
  have 3: "SliceCompositeNode s1 = SliceCompositeNode s0" "MRMLSliceNode s1 = MRMLSliceNode s"
    "CrosshairNode s1 = n"
    using s1 same by simp_all
  show ?thesis
    using fresh ok n 1 2 3
    by (auto simp: UpdateSliceNode_def)
qed


lemma SetSliceCompositeNode_observers:
  "CompositeObservers s = (case SliceCompositeNode s of None \<Rightarrow> [] | Some c \<Rightarrow> [c]) \<Longrightarrow>
   CompositeObservers (SetSliceCompositeNode c s) = (case c of None \<Rightarrow> [] | Some c \<Rightarrow> [c])"
  by (auto simp: SetSliceCompositeNode_def Let_def split: option.splits)

lemma SetCrosshairNode_observers:
  "CrosshairObservers s = (case CrosshairNode s of None \<Rightarrow> [] | Some n \<Rightarrow> [n]) \<Longrightarrow>
   CrosshairObservers (SetCrosshairNode n s) = (case n of None \<Rightarrow> [] | Some n \<Rightarrow> [n])"
  by (auto simp: SetCrosshairNode_def Let_def split: option.splits)

lemma update_observers:
  assumes "UpdateSliceNode s = Inr s1"
    and "CompositeObservers s = (case SliceCompositeNode s of None \<Rightarrow> [] | Some c \<Rightarrow> [c])"
    and "CrosshairObservers s = (case CrosshairNode s of None \<Rightarrow> [] | Some n \<Rightarrow> [n])"
  shows "CompositeObservers s1 = (case SliceCompositeNode s1 of None \<Rightarrow> [] | Some c \<Rightarrow> [c]) \<and>
         CrosshairObservers s1 = (case CrosshairNode s1 of None \<Rightarrow> [] | Some n \<Rightarrow> [n])"
proof -
  from assms(1) obtain s0 n where
    s0: "s0 = s \<or> (\<exists>c. s0 = SetSliceCompositeNode c s)" and s1: "s1 = SetCrosshairNode n s0"
    by (auto simp: UpdateSliceNode_def split: sum.splits if_splits)
  from s0 have "CompositeObservers s0 = (case SliceCompositeNode s0 of None \<Rightarrow> [] | Some c \<Rightarrow> [c])"
    and "CrosshairObservers s0 = (case CrosshairNode s0 of None \<Rightarrow> [] | Some n \<Rightarrow> [n])"
    using assms(2,3) SetSliceCompositeNode_observers [of s] by auto
  then show ?thesis
    using s1 SetCrosshairNode_observers [of s0 n] by simp
qed

text \<open>
  C7.  A second \<^verbatim>\<open>UpdateSliceNode\<close> right after one that returned changes nothing: it
  returns the same manager, with the same bindings and the same registrations.
  Binding the composite node or the crosshair node that is already bound returns the
  manager as it is, and so does binding any node a second time.  When each bound node
  held exactly one registration and no other node held any, the same is true after
  \<^verbatim>\<open>UpdateSliceNode\<close>: no registration is doubled.
\<close>

theorem rebinding_idempotent:
  "(UpdateSliceNode s = Inr s1 \<longrightarrow> UpdateSliceNode s1 = Inr s1) \<and>
   SetSliceCompositeNode (SliceCompositeNode s) s = s \<and>
   SetCrosshairNode (CrosshairNode s) s = s \<and>
   SetSliceCompositeNode c (SetSliceCompositeNode c s) = SetSliceCompositeNode c s \<and>
   SetCrosshairNode n (SetCrosshairNode n s) = SetCrosshairNode n s \<and>
   (UpdateSliceNode s = Inr s1 \<and>
    CompositeObservers s = (case SliceCompositeNode s of None \<Rightarrow> [] | Some a \<Rightarrow> [a]) \<and>
    CrosshairObservers s = (case CrosshairNode s of None \<Rightarrow> [] | Some a \<Rightarrow> [a]) \<longrightarrow>
      CompositeObservers s1 = (case SliceCompositeNode s1 of None \<Rightarrow> [] | Some a \<Rightarrow> [a]) \<and>
      CrosshairObservers s1 = (case CrosshairNode s1 of None \<Rightarrow> [] | Some a \<Rightarrow> [a]))"
  using update_again [of s s1] update_observers [of s s1] by simp

lemma redManager_resolved: "UpdateSliceNode redManager = Inr resolvedManager"
  by (simp add: UpdateSliceNode_def compositeIsStale_def FindSliceCompositeNode_def
      FindCrosshairNode_def SetSliceCompositeNode_def SetCrosshairNode_def Let_def manager_defs)

theorem rebinding_idempotent_witness:
  "UpdateSliceNode redManager = Inr resolvedManager \<and>
   UpdateSliceNode resolvedManager = Inr resolvedManager \<and>
   CompositeObservers redManager = [] \<and> CrosshairObservers redManager = [] \<and>
   CompositeObservers resolvedManager = [7] \<and> CrosshairObservers resolvedManager = [3]"
  using rebinding_idempotent [of redManager resolvedManager]
  by (simp add: redManager_resolved) (simp add: manager_defs)

subsection \<open>Surfaces of the glyph\<close>














subsection \<open>Matrix inverse\<close>

text \<open>The model of \<^verbatim>\<open>Invert\<close> is an inverse wherever the determinant is not 0.\<close>

lemma Invert_inverse:
  assumes "Determinant M \<noteq> 0"
  shows "Multiply4x4 (Invert M) M = Identity"
proof -
  obtain a00 a01 a02 a03 a10 a11 a12 a13 a20 a21 a22 a23 a30 a31 a32 a33 where
    M: "M = ((a00, a01, a02, a03), (a10, a11, a12, a13), (a20, a21, a22, a23), (a30, a31, a32, a33))"
    by (metis prod_cases4)
  define d where "d = Determinant M"
  have d0: "d \<noteq> 0" using assms by (simp add: d_def)
  have I: "Invert M = mkMat (\<lambda>i j. GetElement (Adjoint M) i j / d)"
    using assms by (simp add: Invert_def d_def)
  have dd: "d = a00 * (a11 * (a22 * a33 - a23 * a32) - a12 * (a21 * a33 - a23 * a31) + a13 * (a21 * a32 - a22 * a31))
     - a01 * (a10 * (a22 * a33 - a23 * a32) - a12 * (a20 * a33 - a23 * a30) + a13 * (a20 * a32 - a22 * a30))
     + a02 * (a10 * (a21 * a33 - a23 * a31) - a11 * (a20 * a33 - a23 * a30) + a13 * (a20 * a31 - a21 * a30))
     - a03 * (a10 * (a21 * a32 - a22 * a31) - a11 * (a20 * a32 - a22 * a30) + a12 * (a20 * a31 - a21 * a30))"
    unfolding d_def M
    by (simp add: Determinant_def minor_def others_def GetElement_def vecNth_def Determinant3x3_def
        algebra_simps)
  show ?thesis
    unfolding I
    apply (simp add: M Multiply4x4_def Identity_def Adjoint_def minor_def others_def GetElement_def
        vecNth_def mkMat_def mkVec_def Determinant3x3_def)
    using d0 apply (simp add: divide_simps)
    apply (simp add: dd algebra_simps)
    done
qed

end
